theory Spec2Isabelle
  imports Main
begin

section \<open>Mount lifecycle of nova/virt/disk/mount/api.py\<close>

text \<open>
  A shallow embedding of class \<^verbatim>\<open>Mount\<close>. The object is a record, every method takes
  the object and the world and returns an outcome, the updated object and the updated
  world. A raised exception is the \<open>Inl\<close> outcome and carries the object as it was when
  the exception left the method. The translation function \<^verbatim>\<open>_\<close> is the identity, and every
  command is run with \<^verbatim>\<open>run_as_root=True\<close>, which the model does not record.
\<close>

subsection \<open>Python values and string helpers\<close>

datatype exn = AssertionError | TypeError | ValueError | ProcessExecutionError

text \<open>The values the \<^verbatim>\<open>partition\<close> attribute takes: \<^verbatim>\<open>None\<close>, an integer, or the
  text that \<^verbatim>\<open>reset_dev\<close> cuts out of a device name.\<close>

datatype pyval = PNone | PInt int | PStr string

fun string_of_nat :: "nat \<Rightarrow> string" where
  "string_of_nat n =
     (if n < 10 then [''0123456789'' ! n]
      else string_of_nat (n div 10) @ [''0123456789'' ! (n mod 10)])"

declare string_of_nat.simps [simp del]

definition string_of_int :: "int \<Rightarrow> string" where
  "string_of_int i =
     (if i < 0 then CHR ''-'' # string_of_nat (nat (- i)) else string_of_nat (nat i))"

text \<open>\<^verbatim>\<open>'%s' % v\<close>.\<close>

fun pystr :: "pyval \<Rightarrow> string" where
  "pystr PNone = ''None''"
| "pystr (PInt i) = string_of_int i"
| "pystr (PStr s) = s"

text \<open>\<^verbatim>\<open>'%s' % v\<close> for an attribute that is \<^verbatim>\<open>None\<close> or a string.\<close>

fun pystr_opt :: "string option \<Rightarrow> string" where
  "pystr_opt None = ''None''"
| "pystr_opt (Some s) = s"

text \<open>Python truthiness, as \<^verbatim>\<open>if self.partition\<close> tests it.\<close>

fun truthy :: "pyval \<Rightarrow> bool" where
  "truthy PNone = False"
| "truthy (PInt i) = (i \<noteq> 0)"
| "truthy (PStr s) = (s \<noteq> [])"

text \<open>\<^verbatim>\<open>os.path.basename\<close>: what follows the last slash.\<close>

definition basename :: "string \<Rightarrow> string" where
  "basename p = rev (takeWhile (\<lambda>c. c \<noteq> CHR ''/'') (rev p))"

text \<open>\<^verbatim>\<open>os.path.isabs\<close>.\<close>

definition isabs :: "string \<Rightarrow> bool" where
  "isabs p = (case p of [] \<Rightarrow> False | c # _ \<Rightarrow> c = CHR ''/'')"

text \<open>\<^verbatim>\<open>s.startswith(pre)\<close>.\<close>

definition startswith :: "string \<Rightarrow> string \<Rightarrow> bool" where
  "startswith pre s = (take (length pre) s = pre)"

text \<open>\<^verbatim>\<open>os.path.join(a, b)\<close> of posixpath, for two components.\<close>

definition path_join :: "string \<Rightarrow> string \<Rightarrow> string" where
  "path_join a b =
     (if isabs b then b
      else if a = [] \<or> last a = CHR ''/'' then a @ b
      else a @ ''/'' @ b)"

text \<open>\<^verbatim>\<open>s.rsplit('p', 1)\<close> unpacked into two names: the text before and after the
  last \<^verbatim>\<open>p\<close>. Without a \<^verbatim>\<open>p\<close> the list has one element and the unpacking raises
  ValueError, which is \<open>None\<close> here.\<close>

definition rsplit_p :: "string \<Rightarrow> (string \<times> string) option" where
  "rsplit_p s =
     (if CHR ''p'' \<in> set s
      then Some (rev (tl (dropWhile (\<lambda>c. c \<noteq> CHR ''p'') (rev s))),
                 rev (takeWhile (\<lambda>c. c \<noteq> CHR ''p'') (rev s)))
      else None)"

subsection \<open>The object, the world and the collaborators\<close>

record mount =
  image_file :: string
  partition_sel :: pyval
  mount_dir :: string
  error :: string
  linked :: bool
  mapped :: bool
  mounted :: bool
  automapped :: bool
  device :: "string option"
  mapped_device :: "string option"

text \<open>An argument vector as the code hands it to the command runner; an attribute that is
  \<^verbatim>\<open>None\<close> is passed as it is.\<close>

type_synonym argv = "string option list"

text \<open>The world: the state of the operating system, of a type the model does not look
  into, and the list of the commands handed to the command runner, oldest first.\<close>

record 'w world =
  os :: 'w
  calls :: "argv list"

text \<open>\<^verbatim>\<open>os.path.exists\<close>, \<^verbatim>\<open>utils.trycmd\<close> and \<^verbatim>\<open>utils.execute\<close> are not part of the class;
  they are parameters, and each may change the state of the operating system. \<open>trycmd\<close>
  takes the \<^verbatim>\<open>discard_warnings\<close> flag and returns the pair (out, err) without raising;
  \<open>execute\<close> returns \<open>None\<close> when it raises ProcessExecutionError.\<close>

record 'w env =
  path_exists :: "'w \<Rightarrow> string \<Rightarrow> bool"
  trycmd :: "argv \<Rightarrow> bool \<Rightarrow> 'w \<Rightarrow> (string \<times> string) \<times> 'w"
  execute :: "argv \<Rightarrow> 'w \<Rightarrow> (string \<times> string) option \<times> 'w"

type_synonym ('a, 'w) res = "(exn + 'a) \<times> mount \<times> 'w world"

text \<open>What a subclass overrides: the \<^verbatim>\<open>mode\<close> attribute, \<^verbatim>\<open>get_dev\<close> and \<^verbatim>\<open>unget_dev\<close>.\<close>

record 'w backend =
  mode :: "string option"
  get_dev_m :: "mount \<Rightarrow> 'w world \<Rightarrow> (bool, 'w) res"
  unget_dev_m :: "mount \<Rightarrow> 'w world \<Rightarrow> (unit, 'w) res"

definition exists :: "'w env \<Rightarrow> 'w world \<Rightarrow> string \<Rightarrow> bool" where
  "exists env W p = path_exists env (os W) p"

definition utils_trycmd ::
  "'w env \<Rightarrow> argv \<Rightarrow> bool \<Rightarrow> 'w world \<Rightarrow> (string \<times> string) \<times> 'w world" where
  "utils_trycmd env args discard_warnings W =
     (case trycmd env args discard_warnings (os W) of
        (r, s) \<Rightarrow> (r, W\<lparr>os := s, calls := calls W @ [args]\<rparr>))"

definition utils_execute ::
  "'w env \<Rightarrow> argv \<Rightarrow> 'w world \<Rightarrow> (string \<times> string) option \<times> 'w world" where
  "utils_execute env args W =
     (case execute env args (os W) of
        (r, s) \<Rightarrow> (r, W\<lparr>os := s, calls := calls W @ [args]\<rparr>))"

text \<open>Statement after statement: the second runs only when the first returned.\<close>

definition seq ::
  "('a, 'w) res \<Rightarrow> ('a \<Rightarrow> mount \<Rightarrow> 'w world \<Rightarrow> ('b, 'w) res) \<Rightarrow> ('b, 'w) res" where
  "seq r k = (case r of (Inl e, m, W) \<Rightarrow> (Inl e, m, W) | (Inr a, m, W) \<Rightarrow> k a m W)"

subsection \<open>The methods\<close>

definition reset_dev :: "'w env \<Rightarrow> mount \<Rightarrow> 'w world \<Rightarrow> (unit, 'w) res" where
  "reset_dev env m W =
     (case device m of
        None \<Rightarrow> (Inr (), m, W)
      | Some d \<Rightarrow>
          if d = [] then (Inr (), m, W)
          else
            let m1 = m\<lparr>linked := True, mapped := True, mounted := True\<rparr> in
            if isabs d \<and> exists env W d then
              if startswith ''/dev/mapper/'' d then
                (case rsplit_p (basename d) of
                   None \<Rightarrow> (Inl ValueError, m1, W)
                 | Some (dev, part) \<Rightarrow>
                     (Inr (), m1\<lparr>partition_sel := PStr part,
                                 device := Some (path_join ''/dev'' dev)\<rparr>, W))
              else (Inr (), m1, W)
            else (Inr (), m1, W))"

definition Mount_init ::
  "'w env \<Rightarrow> string \<Rightarrow> string \<Rightarrow> pyval \<Rightarrow> string option \<Rightarrow> 'w world \<Rightarrow> (unit, 'w) res" where
  "Mount_init env img mdir part dev W =
     reset_dev env
       \<lparr>image_file = img, partition_sel = part, mount_dir = mdir,
        error = [], linked = False, mapped = False, mounted = False, automapped = False,
        device = dev, mapped_device = dev\<rparr> W"

definition get_dev :: "mount \<Rightarrow> 'w world \<Rightarrow> (bool, 'w) res" where
  "get_dev m W = (Inr True, m\<lparr>device := None, linked := True\<rparr>, W)"

definition unget_dev :: "mount \<Rightarrow> 'w world \<Rightarrow> (unit, 'w) res" where
  "unget_dev m W = (Inr (), m\<lparr>linked := False\<rparr>, W)"

text \<open>Class \<^verbatim>\<open>Mount\<close> itself, with nothing overridden.\<close>

definition Mount_class :: "'w backend" where
  "Mount_class = \<lparr>mode = None, get_dev_m = get_dev, unget_dev_m = unget_dev\<rparr>"

definition map_dev :: "'w backend \<Rightarrow> 'w env \<Rightarrow> mount \<Rightarrow> 'w world \<Rightarrow> (bool, 'w) res" where
  "map_dev b env m W =
     (case device m of
        None \<Rightarrow> (Inl TypeError, m, W)
      | Some d \<Rightarrow>
          if \<not> exists env W d then (Inl AssertionError, m, W)
          else
            let automapped_path = ''/dev/'' @ basename d @ ''p'' @ pystr (partition_sel m) in
            if partition_sel m = PInt (- 1) then
              (let m' = m\<lparr>error := ''partition search unsupported with '' @ pystr_opt (mode b)\<rparr>
               in (Inr (mapped m'), m', W))
            else if truthy (partition_sel m) \<and> \<not> exists env W automapped_path then
              (let map_path = ''/dev/mapper/'' @ basename d @ ''p'' @ pystr (partition_sel m) in
               if exists env W map_path then (Inl AssertionError, m, W)
               else
                 (case utils_trycmd env [Some ''kpartx'', Some ''-a'', Some d] True W of
                    ((out, err), W1) \<Rightarrow>
                      if \<not> exists env W1 map_path then
                        (let err' = (if err = [] then
                                       ''partition '' @ pystr (partition_sel m) @ '' not found''
                                     else err);
                             m' = m\<lparr>error := ''Failed to map partitions: '' @ err'\<rparr>
                         in (Inr (mapped m'), m', W1))
                      else
                        (Inr True, m\<lparr>mapped_device := Some map_path, mapped := True\<rparr>, W1)))
            else if truthy (partition_sel m) \<and> exists env W automapped_path then
              (Inr True, m\<lparr>mapped_device := Some automapped_path, mapped := True,
                           automapped := True\<rparr>, W)
            else
              (Inr True, m\<lparr>mapped_device := device m, mapped := True\<rparr>, W))"

definition unmap_dev :: "'w env \<Rightarrow> mount \<Rightarrow> 'w world \<Rightarrow> (unit, 'w) res" where
  "unmap_dev env m W =
     (if \<not> mapped m then (Inr (), m, W)
      else if truthy (partition_sel m) \<and> \<not> automapped m then
        (case utils_execute env [Some ''kpartx'', Some ''-d'', device m] W of
           (None, W1) \<Rightarrow> (Inl ProcessExecutionError, m, W1)
         | (Some _, W1) \<Rightarrow> (Inr (), m\<lparr>mapped := False, automapped := False\<rparr>, W1))
      else (Inr (), m\<lparr>mapped := False, automapped := False\<rparr>, W))"

definition mnt_dev :: "'w env \<Rightarrow> mount \<Rightarrow> 'w world \<Rightarrow> (bool, 'w) res" where
  "mnt_dev env m W =
     (case utils_trycmd env [Some ''mount'', mapped_device m, Some (mount_dir m)] False W of
        ((out, err), W1) \<Rightarrow>
          if err \<noteq> [] then
            (Inr False, m\<lparr>error := ''Failed to mount filesystem: '' @ err\<rparr>, W1)
          else (Inr True, m\<lparr>mounted := True\<rparr>, W1))"

definition unmnt_dev :: "'w env \<Rightarrow> mount \<Rightarrow> 'w world \<Rightarrow> (unit, 'w) res" where
  "unmnt_dev env m W =
     (if \<not> mounted m then (Inr (), m, W)
      else
        (case utils_execute env [Some ''umount'', mapped_device m] W of
           (None, W1) \<Rightarrow> (Inl ProcessExecutionError, m, W1)
         | (Some _, W1) \<Rightarrow> (Inr (), m\<lparr>mounted := False\<rparr>, W1)))"

definition do_umount :: "'w backend \<Rightarrow> 'w env \<Rightarrow> mount \<Rightarrow> 'w world \<Rightarrow> (unit, 'w) res" where
  "do_umount b env m W =
     seq (if mounted m then unmnt_dev env m W else (Inr (), m, W))
       (\<lambda>_ m1 W1.
          seq (if mapped m1 then unmap_dev env m1 W1 else (Inr (), m1, W1))
            (\<lambda>_ m2 W2. if linked m2 then unget_dev_m b m2 W2 else (Inr (), m2, W2)))"

text \<open>The expression \<^verbatim>\<open>self.get_dev() and self.map_dev() and self.mnt_dev()\<close>.\<close>

definition stages :: "'w backend \<Rightarrow> 'w env \<Rightarrow> mount \<Rightarrow> 'w world \<Rightarrow> (bool, 'w) res" where
  "stages b env m W =
     seq (get_dev_m b m W)
       (\<lambda>ok1 m1 W1.
          if \<not> ok1 then (Inr False, m1, W1)
          else seq (map_dev b env m1 W1)
                 (\<lambda>ok2 m2 W2. if \<not> ok2 then (Inr False, m2, W2) else mnt_dev env m2 W2))"

text \<open>\<^verbatim>\<open>try: status = ... finally: if not status: self.do_umount()\<close>. An exception of the
  teardown replaces the one of the stages; otherwise the one of the stages goes on.\<close>

definition do_mount :: "'w backend \<Rightarrow> 'w env \<Rightarrow> mount \<Rightarrow> 'w world \<Rightarrow> (bool, 'w) res" where
  "do_mount b env m W =
     (case stages b env m W of
        (Inr True, m1, W1) \<Rightarrow> (Inr True, m1, W1)
      | (Inr False, m1, W1) \<Rightarrow>
          (case do_umount b env m1 W1 of
             (Inl e2, m2, W2) \<Rightarrow> (Inl e2, m2, W2)
           | (Inr _, m2, W2) \<Rightarrow> (Inr False, m2, W2))
      | (Inl e, m1, W1) \<Rightarrow>
          (case do_umount b env m1 W1 of
             (Inl e2, m2, W2) \<Rightarrow> (Inl e2, m2, W2)
           | (Inr _, m2, W2) \<Rightarrow> (Inl e, m2, W2)))"

subsection \<open>Sequences of calls\<close>

datatype op = Reset_dev | Get_dev | Unget_dev | Map_dev | Unmap_dev | Mnt_dev | Unmnt_dev
  | Do_mount | Do_umount

text \<open>The value a method returns is dropped, as in a statement that is only a call.\<close>

definition discard :: "('a, 'w) res \<Rightarrow> (unit, 'w) res" where
  "discard r = seq r (\<lambda>_ m W. (Inr (), m, W))"

fun run_op :: "'w backend \<Rightarrow> 'w env \<Rightarrow> op \<Rightarrow> mount \<Rightarrow> 'w world \<Rightarrow> (unit, 'w) res" where
  "run_op b env Reset_dev m W = reset_dev env m W"
| "run_op b env Get_dev m W = discard (get_dev_m b m W)"
| "run_op b env Unget_dev m W = unget_dev_m b m W"
| "run_op b env Map_dev m W = discard (map_dev b env m W)"
| "run_op b env Unmap_dev m W = unmap_dev env m W"
| "run_op b env Mnt_dev m W = discard (mnt_dev env m W)"
| "run_op b env Unmnt_dev m W = unmnt_dev env m W"
| "run_op b env Do_mount m W = discard (do_mount b env m W)"
| "run_op b env Do_umount m W = do_umount b env m W"

text \<open>The calls one after the other; the first exception ends the sequence.\<close>

fun run_ops :: "'w backend \<Rightarrow> 'w env \<Rightarrow> op list \<Rightarrow> mount \<Rightarrow> 'w world \<Rightarrow> (unit, 'w) res" where
  "run_ops b env [] m W = (Inr (), m, W)"
| "run_ops b env (x # xs) m W = seq (run_op b env x m W) (\<lambda>_. run_ops b env xs)"

text \<open>The order the class asks for (get, map, mount, and the reverse to undo): a stage is
  called when the stage before it is held, and undone when the stage after it is not.\<close>

fun op_guard :: "op \<Rightarrow> mount \<Rightarrow> bool" where
  "op_guard Map_dev m = linked m"
| "op_guard Mnt_dev m = mapped m"
| "op_guard Unmap_dev m = (\<not> mounted m)"
| "op_guard Unget_dev m = (\<not> mapped m)"
| "op_guard _ m = True"

fun in_order :: "'w backend \<Rightarrow> 'w env \<Rightarrow> op list \<Rightarrow> mount \<Rightarrow> 'w world \<Rightarrow> bool" where
  "in_order b env [] m W = True"
| "in_order b env (x # xs) m W =
     (op_guard x m \<and>
      (case run_op b env x m W of
         (Inl e, m', W') \<Rightarrow> True
       | (Inr _, m', W') \<Rightarrow> in_order b env xs m' W'))"

subsection \<open>Properties of a state and of a subclass\<close>

text \<open>The stage flags form a prefix.\<close>

definition prefix_flags :: "mount \<Rightarrow> bool" where
  "prefix_flags m = ((mounted m \<longrightarrow> mapped m) \<and> (mapped m \<longrightarrow> linked m))"

definition idle :: "mount \<Rightarrow> bool" where
  "idle m = (\<not> linked m \<and> \<not> mapped m \<and> \<not> mounted m)"

text \<open>What the theorems ask of an overriding \<^verbatim>\<open>unget_dev\<close>: it leaves the flags of the
  later stages alone, and when it returns the device is no longer held. The method of
  the class itself does so.\<close>

definition unget_dev_ok :: "'w backend \<Rightarrow> bool" where
  "unget_dev_ok b =
     (\<forall>m W. case unget_dev_m b m W of
              (r, m', W') \<Rightarrow>
                mapped m' = mapped m \<and> mounted m' = mounted m \<and>
                automapped m' = automapped m \<and> (r = Inr () \<longrightarrow> \<not> linked m'))"

text \<open>What they ask of an overriding \<^verbatim>\<open>get_dev\<close>: it leaves the flags of the later
  stages alone, does not release a device that is held, and holds one when it returns
  true.\<close>

definition get_dev_ok :: "'w backend \<Rightarrow> bool" where
  "get_dev_ok b =
     (\<forall>m W. case get_dev_m b m W of
              (r, m', W') \<Rightarrow>
                mapped m' = mapped m \<and> mounted m' = mounted m \<and>
                (linked m \<longrightarrow> linked m') \<and> (r = Inr True \<longrightarrow> linked m'))"

text \<open>A subclass whose \<^verbatim>\<open>get_dev\<close> and \<^verbatim>\<open>unget_dev\<close> leave the error text alone, as those of the
  class do.\<close>

definition keeps_error :: "'w backend \<Rightarrow> bool" where
  "keeps_error b =
     (\<forall>m W. error (fst (snd (get_dev_m b m W))) = error m \<and>
            error (fst (snd (unget_dev_m b m W))) = error m)"

text \<open>
  The failure of \<^verbatim>\<open>map_dev\<close> as section 4.2 of the specification describes it, written
  apart from the method: partition search (partition -1) is unsupported; with a specific
  partition and no auto-map node, the mapping has failed when the device-mapper node is
  absent after kpartx -a, and the description carries what the tool wrote to stderr, or
  says that the partition was not found. \<open>None\<close> means no failure.
\<close>

definition map_failure :: "'w backend \<Rightarrow> 'w env \<Rightarrow> mount \<Rightarrow> 'w world \<Rightarrow> string option" where
  "map_failure b env m W =
     (if partition_sel m = PInt (- 1) then
        Some (''partition search unsupported with '' @ pystr_opt (mode b))
      else if truthy (partition_sel m) \<and>
              \<not> exists env W (''/dev/'' @ basename (pystr_opt (device m)) @ ''p'' @
                                pystr (partition_sel m)) then
        (case utils_trycmd env [Some ''kpartx'', Some ''-a'', device m] True W of
           ((out, err), W1) \<Rightarrow>
             if exists env W1 (''/dev/mapper/'' @ basename (pystr_opt (device m)) @ ''p'' @
                                pystr (partition_sel m))
             then None
             else Some (''Failed to map partitions: '' @
                        (if err = [] then ''partition '' @ pystr (partition_sel m) @ '' not found''
                         else err)))
      else None)"

text \<open>
  The failure of \<^verbatim>\<open>mnt_dev\<close> in the same way: the mount command wrote error text.
\<close>

definition mnt_failure :: "'w env \<Rightarrow> mount \<Rightarrow> 'w world \<Rightarrow> string option" where
  "mnt_failure env m W =
     (case utils_trycmd env [Some ''mount'', mapped_device m, Some (mount_dir m)] False W of
        ((out, err), W1) \<Rightarrow>
          if err = [] then None else Some (''Failed to mount filesystem: '' @ err))"

text \<open>
  The error text after a stage: the description of its failure, or the text as it was.
\<close>

definition or_keep :: "string option \<Rightarrow> string \<Rightarrow> string" where
  "or_keep f acc = (case f of None \<Rightarrow> acc | Some t \<Rightarrow> t)"

text \<open>
  The error text after \<^verbatim>\<open>map_dev\<close>; a call that raises leaves the text as it was.
\<close>

definition map_expected :: "'w backend \<Rightarrow> 'w env \<Rightarrow> mount \<Rightarrow> 'w world \<Rightarrow> string \<Rightarrow> string" where
  "map_expected b env m W acc =
     (case fst (map_dev b env m W) of
        Inl e \<Rightarrow> acc
      | Inr r \<Rightarrow> or_keep (map_failure b env m W) acc)"

text \<open>
  The error text after \<^verbatim>\<open>do_mount\<close>, for a subclass that leaves the text alone: the stages
  that ran, in order, each writing its failure.
\<close>

definition do_mount_expected ::
  "'w backend \<Rightarrow> 'w env \<Rightarrow> mount \<Rightarrow> 'w world \<Rightarrow> string \<Rightarrow> string" where
  "do_mount_expected b env m W acc =
     (case get_dev_m b m W of
        (Inr True, m1, W1) \<Rightarrow>
          (case map_dev b env m1 W1 of
             (Inr True, m2, W2) \<Rightarrow>
               or_keep (mnt_failure env m2 W2) (map_expected b env m1 W1 acc)
           | _ \<Rightarrow> map_expected b env m1 W1 acc)
      | _ \<Rightarrow> acc)"

text \<open>
  The error text after one call, \<open>acc\<close> being the text before it.
\<close>

fun op_expected ::
  "'w backend \<Rightarrow> 'w env \<Rightarrow> op \<Rightarrow> mount \<Rightarrow> 'w world \<Rightarrow> string \<Rightarrow> string" where
  "op_expected b env Map_dev m W acc = map_expected b env m W acc"
| "op_expected b env Mnt_dev m W acc = or_keep (mnt_failure env m W) acc"
| "op_expected b env Do_mount m W acc = do_mount_expected b env m W acc"
| "op_expected b env _ m W acc = acc"

text \<open>
  The error text after a sequence of calls: the description of the most recent failure,
  or the text the sequence started with.
\<close>

fun expected_error ::
  "'w backend \<Rightarrow> 'w env \<Rightarrow> op list \<Rightarrow> mount \<Rightarrow> 'w world \<Rightarrow> string \<Rightarrow> string" where
  "expected_error b env [] m W acc = acc"
| "expected_error b env (x # xs) m W acc =
     (case run_op b env x m W of
        (Inl e, m', W') \<Rightarrow> op_expected b env x m W acc
      | (Inr u, m', W') \<Rightarrow> expected_error b env xs m' W' (op_expected b env x m W acc))"

subsection \<open>A subclass and a command runner to run the model on\<close>

text \<open>Modelled from the spec: a device backend (section 4.1), standing in for the
  subclasses LoopMount and NbdMount of nova/virt/disk/mount/loop.py and nbd.py. Attach
  gives the raw device path or fails; on success \<^verbatim>\<open>get_dev\<close> sets the device and the
  flag, on failure it sets the error text. Detach is guarded by the flag and clears it.
  It is an example to run \<^verbatim>\<open>do_mount\<close> on; the theorems are stated for every subclass.\<close>

definition spec_backend :: "string option \<Rightarrow> 'w backend" where
  "spec_backend attach =
     \<lparr>mode = Some ''loop'',
      get_dev_m = (\<lambda>m W.
         case attach of
           None \<Rightarrow> (Inr False, m\<lparr>error := ''Could not attach image to loopback''\<rparr>, W)
         | Some d \<Rightarrow> (Inr True, m\<lparr>device := Some d, linked := True\<rparr>, W)),
      unget_dev_m = (\<lambda>m W. if \<not> linked m then (Inr (), m, W)
                            else (Inr (), m\<lparr>linked := False\<rparr>, W))\<rparr>"

text \<open>A command runner over a world that is the list of the paths that exist: kpartx -a
  reports \<open>kerr\<close> and creates the paths \<open>knew\<close>, mount reports \<open>merr\<close>, and
  \<^verbatim>\<open>utils.execute\<close> raises when \<open>xfail\<close> is set.\<close>

definition sim_env :: "string \<Rightarrow> string list \<Rightarrow> string \<Rightarrow> bool \<Rightarrow> (string list) env" where
  "sim_env kerr knew merr xfail =
     \<lparr>path_exists = (\<lambda>s p. p \<in> set s),
      trycmd = (\<lambda>args dw s.
         if hd args = Some ''kpartx'' then (([], kerr), s @ knew)
         else (([], merr), s)),
      execute = (\<lambda>args s. if xfail then (None, s) else (Some ([], []), s))\<rparr>"

definition fresh :: "pyval \<Rightarrow> mount" where
  "fresh part =
     \<lparr>image_file = ''disk.img'', partition_sel = part, mount_dir = ''/mnt'',
      error = [], linked = False, mapped = False, mounted = False, automapped = False,
      device = None, mapped_device = None\<rparr>"

section \<open>Auxiliary facts\<close>

lemma seq_Inl [simp]: "seq (Inl e, m, W) k = (Inl e, m, W)"
  by (simp add: seq_def)

lemma seq_Inr [simp]: "seq (Inr a, m, W) k = k a m W"
  by (simp add: seq_def)

lemma unmnt_dev_result:
  assumes "unmnt_dev env m W = (r, m', W')"
  shows "(r = Inr () \<and> m' = m\<lparr>mounted := False\<rparr>) \<or>
         (r = Inl ProcessExecutionError \<and> m' = m \<and> mounted m)"
  using assms
  by (auto simp: unmnt_dev_def split: if_splits prod.splits option.splits)

lemma unmap_dev_result:
  assumes "unmap_dev env m W = (r, m', W')"
  shows "(r = Inr () \<and> \<not> mapped m' \<and> mounted m' = mounted m \<and> linked m' = linked m \<and>
            (mapped m \<longrightarrow> \<not> automapped m')) \<or>
         (r = Inl ProcessExecutionError \<and> m' = m \<and> mapped m)"
  using assms
  by (auto simp: unmap_dev_def split: if_splits prod.splits option.splits)

lemma do_umount_idle:
  "idle m \<Longrightarrow> do_umount b env m W = (Inr (), m, W)"
  by (simp add: do_umount_def idle_def)

lemma unget_dev_okD:
  assumes "unget_dev_ok b" and "unget_dev_m b m W = (r, m', W')"
  shows "mapped m' = mapped m" and "mounted m' = mounted m" and "automapped m' = automapped m"
    and "r = Inr () \<Longrightarrow> \<not> linked m'"
  using assms unfolding unget_dev_ok_def
  by (fastforce split: prod.splits)+

text \<open>A teardown that returns leaves no stage held.\<close>

lemma do_umount_returns_idle:
  assumes ok: "unget_dev_ok b" and run: "do_umount b env m W = (Inr u, m', W')"
  shows "idle m'"
proof -
  obtain r1 m1 W1 where
    s1: "(if mounted m then unmnt_dev env m W else (Inr (), m, W)) = (r1, m1, W1)"
    by (metis prod_cases3)
  obtain r2 m2 W2 where
    s2: "(if mapped m1 then unmap_dev env m1 W1 else (Inr (), m1, W1)) = (r2, m2, W2)"
    by (metis prod_cases3)
  obtain r3 m3 W3 where
    s3: "(if linked m2 then unget_dev_m b m2 W2 else (Inr (), m2, W2)) = (r3, m3, W3)"
    by (metis prod_cases3)
  from run s1 have r1: "r1 = Inr ()"
    unfolding do_umount_def by (cases r1) auto
  from run s1 s2 r1 have r2: "r2 = Inr ()"
    unfolding do_umount_def by (cases r2) auto
  from run s1 s2 s3 r1 r2 have fin: "r3 = Inr u" "m3 = m'"
    unfolding do_umount_def by auto
  from s1 r1 have a1: "\<not> mounted m1"
    using unmnt_dev_result[of env m W r1 m1 W1] by (auto split: if_splits)
  from s2 r2 a1 have a2: "\<not> mounted m2 \<and> \<not> mapped m2"
    using unmap_dev_result[of env m1 W1 r2 m2 W2] by (auto split: if_splits)
  from s3 fin a2 show ?thesis
    using unget_dev_okD[OF ok, of m2 W2 r3 m3 W3] by (auto simp: idle_def split: if_splits)
qed

lemma Mount_class_unget_ok: "unget_dev_ok Mount_class"
  by (simp add: unget_dev_ok_def Mount_class_def unget_dev_def)

lemma Mount_class_get_ok: "get_dev_ok Mount_class"
  by (simp add: get_dev_ok_def Mount_class_def get_dev_def)

lemma spec_backend_unget_ok: "unget_dev_ok (spec_backend a)"
  by (simp add: unget_dev_ok_def spec_backend_def)

lemma path_join_dev:
  assumes "CHR ''/'' \<notin> set s"
  shows "path_join ''/dev'' s = ''/dev/'' @ s"
  using assms by (cases s) (auto simp: path_join_def isabs_def)

lemma unmnt_dev_returns:
  assumes "unmnt_dev env m W = (Inr u, m1, W1)"
  shows "m1 = m\<lparr>mounted := False\<rparr> \<and>
         calls W1 = calls W @ (if mounted m then [[Some ''umount'', mapped_device m]] else [])"
  using assms
  by (auto simp: unmnt_dev_def utils_execute_def split: if_splits prod.splits option.splits)

lemma unmap_dev_returns:
  assumes "unmap_dev env m W = (Inr u, m2, W2)" and "mapped m"
  shows "m2 = m\<lparr>mapped := False, automapped := False\<rparr> \<and>
         calls W2 = calls W @ (if truthy (partition_sel m) \<and> \<not> automapped m
                               then [[Some ''kpartx'', Some ''-d'', device m]] else [])"
  using assms
  by (auto simp: unmap_dev_def utils_execute_def split: if_splits prod.splits option.splits)

lemma reset_dev_error: "error (fst (snd (reset_dev env m W))) = error m"
  by (simp add: reset_dev_def Let_def split: option.splits prod.splits)

lemma unmnt_dev_error: "error (fst (snd (unmnt_dev env m W))) = error m"
  by (simp add: unmnt_dev_def split: option.splits prod.splits)

lemma unmap_dev_error: "error (fst (snd (unmap_dev env m W))) = error m"
  by (simp add: unmap_dev_def split: option.splits prod.splits)

lemma discard_obj: "fst (snd (discard r)) = fst (snd r)"
proof (cases r)
  case (fields x m W)
  then show ?thesis by (cases x) (simp_all add: discard_def)
qed

lemma Mount_class_keeps_error: "keeps_error Mount_class"
  by (simp add: keeps_error_def Mount_class_def get_dev_def unget_dev_def)

lemma seq_inv:
  assumes "Q (fst (snd r))"
    and "\<And>a m1 W1. r = (Inr a, m1, W1) \<Longrightarrow> Q (fst (snd (k a m1 W1)))"
  shows "Q (fst (snd (seq r k)))"
proof (cases r)
  case (fields x m1 W1)
  show ?thesis
  proof (cases x)
    case (Inl e)
    with fields assms(1) show ?thesis by simp
  next
    case (Inr a)
    with fields assms(2)[of a m1 W1] show ?thesis by simp
  qed
qed

lemma get_dev_okD:
  assumes "get_dev_ok b" and "get_dev_m b m W = (r, m', W')"
  shows "mapped m' = mapped m" and "mounted m' = mounted m" and "linked m \<Longrightarrow> linked m'"
    and "r = Inr True \<Longrightarrow> linked m'"
  using assms unfolding get_dev_ok_def
  by (fastforce split: prod.splits)+

lemma reset_dev_prefix:
  "prefix_flags m \<Longrightarrow> prefix_flags (fst (snd (reset_dev env m W)))"
  by (simp add: reset_dev_def Let_def prefix_flags_def split: option.splits prod.splits)

lemma get_dev_prefix:
  assumes "get_dev_ok b" and "prefix_flags m"
  shows "prefix_flags (fst (snd (get_dev_m b m W)))"
proof -
  obtain r m' W' where g: "get_dev_m b m W = (r, m', W')" by (metis prod_cases3)
  from get_dev_okD(1-3)[OF assms(1) g] assms(2) g show ?thesis
    by (auto simp: prefix_flags_def)
qed

lemma unget_dev_prefix:
  assumes "unget_dev_ok b" and "\<not> mapped m" and "\<not> mounted m"
  shows "prefix_flags (fst (snd (unget_dev_m b m W)))"
proof -
  obtain r m' W' where g: "unget_dev_m b m W = (r, m', W')" by (metis prod_cases3)
  from unget_dev_okD(1,2)[OF assms(1) g] assms(2,3) g show ?thesis
    by (auto simp: prefix_flags_def)
qed

lemma map_dev_prefix:
  assumes "prefix_flags m" and "linked m"
  shows "prefix_flags (fst (snd (map_dev b env m W)))"
  using assms
  by (simp add: map_dev_def Let_def prefix_flags_def split: option.splits prod.splits)

lemma map_dev_True_mapped:
  assumes "map_dev b env m W = (Inr True, m', W')"
  shows "mapped m'"
  using assms
  by (auto simp: map_dev_def Let_def split: option.splits prod.splits if_splits)

lemma mnt_dev_prefix:
  assumes "prefix_flags m" and "mapped m"
  shows "prefix_flags (fst (snd (mnt_dev env m W)))"
  using assms
  by (simp add: mnt_dev_def prefix_flags_def split: prod.splits)

lemma unmnt_dev_prefix:
  assumes "prefix_flags m"
  shows "prefix_flags (fst (snd (unmnt_dev env m W)))"
  using assms
  by (simp add: unmnt_dev_def prefix_flags_def split: prod.splits option.splits)

lemma unmap_dev_prefix:
  assumes "prefix_flags m" and "\<not> mounted m"
  shows "prefix_flags (fst (snd (unmap_dev env m W)))"
  using assms
  by (simp add: unmap_dev_def prefix_flags_def split: prod.splits option.splits)

lemma do_umount_prefix:
  assumes ok: "unget_dev_ok b" and p: "prefix_flags m"
  shows "prefix_flags (fst (snd (do_umount b env m W)))"
  unfolding do_umount_def
proof (rule seq_inv)
  show "prefix_flags (fst (snd (if mounted m then unmnt_dev env m W else (Inr (), m, W))))"
    using p by (simp add: unmnt_dev_prefix)
next
  fix a m1 W1
  assume s1: "(if mounted m then unmnt_dev env m W else (Inr (), m, W)) = (Inr a, m1, W1)"
  then have m1: "prefix_flags m1 \<and> \<not> mounted m1"
    using p unmnt_dev_result[of env m W "Inr a" m1 W1]
    by (auto simp: prefix_flags_def split: if_splits)
  show "prefix_flags
          (fst (snd (seq (if mapped m1 then unmap_dev env m1 W1 else (Inr (), m1, W1))
                       (\<lambda>_ m2 W2. if linked m2 then unget_dev_m b m2 W2 else (Inr (), m2, W2)))))"
  proof (rule seq_inv)
    show "prefix_flags (fst (snd (if mapped m1 then unmap_dev env m1 W1 else (Inr (), m1, W1))))"
      using m1 by (simp add: unmap_dev_prefix)
  next
    fix a2 m2 W2
    assume s2: "(if mapped m1 then unmap_dev env m1 W1 else (Inr (), m1, W1)) = (Inr a2, m2, W2)"
    then have m2: "\<not> mapped m2 \<and> \<not> mounted m2"
      using m1 unmap_dev_result[of env m1 W1 "Inr a2" m2 W2]
      by (auto split: if_splits)
    then show "prefix_flags (fst (snd (if linked m2 then unget_dev_m b m2 W2 else (Inr (), m2, W2))))"
      using unget_dev_prefix[OF ok, of m2 W2] by (simp add: prefix_flags_def)
  qed
qed

lemma stages_prefix:
  assumes ok: "get_dev_ok b" and p: "prefix_flags m"
  shows "prefix_flags (fst (snd (stages b env m W)))"
  unfolding stages_def
proof (rule seq_inv)
  show "prefix_flags (fst (snd (get_dev_m b m W)))"
    using ok p by (rule get_dev_prefix)
next
  fix ok1 m1 W1
  assume g: "get_dev_m b m W = (Inr ok1, m1, W1)"
  from get_dev_prefix[OF ok p, of W] g have p1: "prefix_flags m1" by simp
  show "prefix_flags
          (fst (snd (if \<not> ok1 then (Inr False, m1, W1)
                     else seq (map_dev b env m1 W1)
                            (\<lambda>ok2 m2 W2. if \<not> ok2 then (Inr False, m2, W2)
                                          else mnt_dev env m2 W2))))"
  proof (cases ok1)
    case False
    with p1 show ?thesis by simp
  next
    case True
    with g ok have l1: "linked m1" by (auto dest: get_dev_okD(4))
    have "prefix_flags
            (fst (snd (seq (map_dev b env m1 W1)
                         (\<lambda>ok2 m2 W2. if \<not> ok2 then (Inr False, m2, W2)
                                       else mnt_dev env m2 W2))))"
    proof (rule seq_inv)
      show "prefix_flags (fst (snd (map_dev b env m1 W1)))"
        using p1 l1 by (rule map_dev_prefix)
    next
      fix ok2 m2 W2
      assume mp: "map_dev b env m1 W1 = (Inr ok2, m2, W2)"
      from map_dev_prefix[OF p1 l1, of b env W1] mp have p2: "prefix_flags m2" by simp
      show "prefix_flags (fst (snd (if \<not> ok2 then (Inr False, m2, W2) else mnt_dev env m2 W2)))"
      proof (cases ok2)
        case False
        with p2 show ?thesis by simp
      next
        case True
        with mp have "mapped m2" by (auto dest: map_dev_True_mapped)
        with p2 True show ?thesis by (simp add: mnt_dev_prefix)
      qed
    qed
    with True show ?thesis by simp
  qed
qed

lemma do_mount_prefix:
  assumes g: "get_dev_ok b" and u: "unget_dev_ok b" and p: "prefix_flags m"
  shows "prefix_flags (fst (snd (do_mount b env m W)))"
proof -
  obtain r m1 W1 where st: "stages b env m W = (r, m1, W1)"
    by (metis prod_cases3)
  obtain r2 m2 W2 where um: "do_umount b env m1 W1 = (r2, m2, W2)"
    by (metis prod_cases3)
  from stages_prefix[OF g p, of env W] st have p1: "prefix_flags m1" by simp
  from do_umount_prefix[OF u p1, of env W1] um have p2: "prefix_flags m2" by simp
  show ?thesis
    using st um p1 p2
    by (cases r; cases r2) (auto simp: do_mount_def split: bool.splits)
qed

lemma run_op_prefix:
  assumes g: "get_dev_ok b" and u: "unget_dev_ok b" and p: "prefix_flags m"
    and gd: "op_guard x m"
  shows "prefix_flags (fst (snd (run_op b env x m W)))"
proof (cases x)
  case Unget_dev
  with gd p have "\<not> mapped m \<and> \<not> mounted m" by (auto simp: prefix_flags_def)
  with Unget_dev u show ?thesis by (simp add: unget_dev_prefix)
next
  case Unmap_dev
  with gd p show ?thesis by (simp add: unmap_dev_prefix)
qed (use g u p gd in \<open>simp_all add: discard_obj reset_dev_prefix get_dev_prefix map_dev_prefix
      mnt_dev_prefix unmnt_dev_prefix do_mount_prefix do_umount_prefix\<close>)

lemma run_ops_prefix:
  assumes g: "get_dev_ok b" and u: "unget_dev_ok b"
  shows "prefix_flags m \<Longrightarrow> in_order b env xs m W \<Longrightarrow>
         prefix_flags (fst (snd (run_ops b env xs m W)))"
proof (induction xs arbitrary: m W)
  case Nil
  then show ?case by simp
next
  case (Cons x xs)
  from Cons.prems have gd: "op_guard x m" by simp
  show ?case
    unfolding run_ops.simps
  proof (rule seq_inv)
    show "prefix_flags (fst (snd (run_op b env x m W)))"
      using g u Cons.prems(1) gd by (rule run_op_prefix)
  next
    fix a m1 W1
    assume r: "run_op b env x m W = (Inr a, m1, W1)"
    from run_op_prefix[OF g u Cons.prems(1) gd, of env W] r have p1: "prefix_flags m1" by simp
    from Cons.prems(2) r have "in_order b env xs m1 W1" by simp
    with p1 show "prefix_flags (fst (snd (run_ops b env xs m1 W1)))"
      by (rule Cons.IH)
  qed
qed

text \<open>
  A teardown that raises stopped at the umount command, at kpartx -d, or in \<^verbatim>\<open>unget_dev\<close>.
\<close>

lemma do_umount_raises:
  assumes ok: "unget_dev_ok b" and run: "do_umount b env m W = (Inl e2, m', W')"
  shows "(mounted m \<and> m' = m \<and> e2 = ProcessExecutionError) \<or>
         (mapped m \<and> m' = m\<lparr>mounted := False\<rparr> \<and> e2 = ProcessExecutionError) \<or>
         (linked m \<and> \<not> mounted m' \<and> \<not> mapped m')"
proof -
  obtain r1 m1 W1 where
    s1: "(if mounted m then unmnt_dev env m W else (Inr (), m, W)) = (r1, m1, W1)"
    by (metis prod_cases3)
  show ?thesis
  proof (cases r1)
    case (Inl e)
    with run s1 have "e = e2 \<and> m1 = m'" unfolding do_umount_def by simp
    with s1 Inl show ?thesis
      using unmnt_dev_result[of env m W r1 m1 W1] by (auto split: if_splits)
  next
    case (Inr u1)
    with s1 have m1: "m1 = m\<lparr>mounted := False\<rparr>"
      using unmnt_dev_result[of env m W r1 m1 W1] by (auto split: if_splits)
    obtain r2 m2 W2 where
      s2: "(if mapped m1 then unmap_dev env m1 W1 else (Inr (), m1, W1)) = (r2, m2, W2)"
      by (metis prod_cases3)
    show ?thesis
    proof (cases r2)
      case (Inl e)
      with run s1 s2 Inr have "e = e2 \<and> m2 = m'" unfolding do_umount_def by simp
      with s2 Inl m1 show ?thesis
        using unmap_dev_result[of env m1 W1 r2 m2 W2] by (auto split: if_splits)
    next
      case r2: (Inr u2)
      with s2 m1 have a2: "\<not> mapped m2 \<and> \<not> mounted m2 \<and> linked m2 = linked m"
        using unmap_dev_result[of env m1 W1 r2 m2 W2] by (auto split: if_splits)
      from run s1 s2 Inr r2
      have s3: "(if linked m2 then unget_dev_m b m2 W2 else (Inr (), m2, W2)) = (Inl e2, m', W')"
        unfolding do_umount_def by simp
      then have l: "linked m2" and u: "unget_dev_m b m2 W2 = (Inl e2, m', W')"
        by (auto split: if_splits)
      from unget_dev_okD(1,2)[OF ok u] a2 l show ?thesis by simp
    qed
  qed
qed

lemma basename_no_slash: "CHR ''/'' \<notin> set (basename p)"
  by (auto simp: basename_def dest: set_takeWhileD)

lemma rsplit_p_Some:
  assumes "rsplit_p s = Some (a, b)"
  shows "s = a @ CHR ''p'' # b \<and> CHR ''p'' \<notin> set b"
proof -
  from assms have p: "CHR ''p'' \<in> set s"
    and a: "a = rev (tl (dropWhile (\<lambda>c. c \<noteq> CHR ''p'') (rev s)))"
    and b: "b = rev (takeWhile (\<lambda>c. c \<noteq> CHR ''p'') (rev s))"
    by (auto simp: rsplit_p_def split: if_splits)
  from p have ne: "dropWhile (\<lambda>c. c \<noteq> CHR ''p'') (rev s) \<noteq> []"
    by (simp add: dropWhile_eq_Nil_conv)
  then have hd: "hd (dropWhile (\<lambda>c. c \<noteq> CHR ''p'') (rev s)) = CHR ''p''"
    using hd_dropWhile[of "\<lambda>c. c \<noteq> CHR ''p''" "rev s"] by simp
  have "rev s = takeWhile (\<lambda>c. c \<noteq> CHR ''p'') (rev s) @ dropWhile (\<lambda>c. c \<noteq> CHR ''p'') (rev s)"
    by simp
  also have "dropWhile (\<lambda>c. c \<noteq> CHR ''p'') (rev s) =
      CHR ''p'' # tl (dropWhile (\<lambda>c. c \<noteq> CHR ''p'') (rev s))"
    using ne hd by (cases "dropWhile (\<lambda>c. c \<noteq> CHR ''p'') (rev s)") simp_all
  finally have "rev s = rev b @ CHR ''p'' # rev a"
    using a b by simp
  then have "rev (rev s) = rev (rev b @ CHR ''p'' # rev a)" by simp
  then have "s = a @ CHR ''p'' # b" by simp
  moreover have "CHR ''p'' \<notin> set b"
    using b by (auto dest: set_takeWhileD)
  ultimately show ?thesis by simp
qed

lemma map_dev_error_exact:
  "error (fst (snd (map_dev b env m W))) = map_expected b env m W (error m)"
  by (simp add: map_dev_def map_expected_def map_failure_def or_keep_def Let_def
      split: option.splits prod.splits)

lemma mnt_dev_error_exact:
  "error (fst (snd (mnt_dev env m W))) = or_keep (mnt_failure env m W) (error m)"
  by (simp add: mnt_dev_def mnt_failure_def or_keep_def split: prod.splits)

lemma mnt_dev_result_failure:
  "fst (mnt_dev env m W) = Inr (mnt_failure env m W = None)"
  by (simp add: mnt_dev_def mnt_failure_def split: prod.splits)

lemma map_dev_False_failure:
  "fst (map_dev b env m W) = Inr False \<Longrightarrow> map_failure b env m W \<noteq> None"
  by (auto simp: map_dev_def map_failure_def Let_def split: option.splits prod.splits if_splits)

lemma do_umount_error_exact:
  assumes k: "keeps_error b"
  shows "error (fst (snd (do_umount b env m W))) = error m"
  unfolding do_umount_def
proof (rule seq_inv)
  show "error (fst (snd (if mounted m then unmnt_dev env m W else (Inr (), m, W)))) = error m"
    by (simp add: unmnt_dev_error)
next
  fix a m1 W1
  assume "(if mounted m then unmnt_dev env m W else (Inr (), m, W)) = (Inr a, m1, W1)"
  then have e1: "error m1 = error m"
    using unmnt_dev_error[of env m W] by (auto split: if_splits)
  show "error (fst (snd (seq (if mapped m1 then unmap_dev env m1 W1 else (Inr (), m1, W1))
            (\<lambda>_ m2 W2. if linked m2 then unget_dev_m b m2 W2 else (Inr (), m2, W2))))) = error m"
  proof (rule seq_inv)
    show "error (fst (snd (if mapped m1 then unmap_dev env m1 W1 else (Inr (), m1, W1)))) = error m"
      using e1 by (simp add: unmap_dev_error)
  next
    fix a2 m2 W2
    assume "(if mapped m1 then unmap_dev env m1 W1 else (Inr (), m1, W1)) = (Inr a2, m2, W2)"
    then have "error m2 = error m"
      using unmap_dev_error[of env m1 W1] e1 by (auto split: if_splits)
    then show "error (fst (snd (if linked m2 then unget_dev_m b m2 W2 else (Inr (), m2, W2)))) =
        error m"
      using k by (simp add: keeps_error_def)
  qed
qed

lemma stages_error_exact:
  assumes k: "keeps_error b"
  shows "error (fst (snd (stages b env m W))) = do_mount_expected b env m W (error m)"
proof -
  obtain r1 m1 W1 where g: "get_dev_m b m W = (r1, m1, W1)" by (metis prod_cases3)
  from k g have e1: "error m1 = error m"
    unfolding keeps_error_def by (metis fst_conv snd_conv)
  show ?thesis
  proof (cases "r1 = Inr True")
    case False
    then show ?thesis
      using g e1 by (cases r1) (auto simp: stages_def do_mount_expected_def split: bool.splits)
  next
    case True
    obtain r2 m2 W2 where mp: "map_dev b env m1 W1 = (r2, m2, W2)" by (metis prod_cases3)
    from map_dev_error_exact[of b env m1 W1] mp e1
    have e2: "error m2 = map_expected b env m1 W1 (error m)" by simp
    show ?thesis
    proof (cases "r2 = Inr True")
      case False
      then show ?thesis
        using g True mp e2
        by (cases r2) (auto simp: stages_def do_mount_expected_def split: bool.splits)
    next
      case r2: True
      from mnt_dev_error_exact[of env m2 W2] e2
      have "error (fst (snd (mnt_dev env m2 W2))) =
          or_keep (mnt_failure env m2 W2) (map_expected b env m1 W1 (error m))"
        by simp
      then show ?thesis
        using g True mp r2 by (simp add: stages_def do_mount_expected_def)
    qed
  qed
qed

lemma do_mount_error_exact:
  assumes k: "keeps_error b"
  shows "error (fst (snd (do_mount b env m W))) = do_mount_expected b env m W (error m)"
proof -
  obtain r m1 W1 where st: "stages b env m W = (r, m1, W1)" by (metis prod_cases3)
  obtain r2 m2 W2 where um: "do_umount b env m1 W1 = (r2, m2, W2)" by (metis prod_cases3)
  from stages_error_exact[OF k, of env m W] st
  have e1: "error m1 = do_mount_expected b env m W (error m)" by simp
  from do_umount_error_exact[OF k, of env m1 W1] um have e2: "error m2 = error m1" by simp
  show ?thesis
    using st um e1 e2
    by (cases r; cases r2) (auto simp: do_mount_def split: bool.splits)
qed

lemma run_op_error_exact:
  assumes k: "keeps_error b"
  shows "error (fst (snd (run_op b env x m W))) = op_expected b env x m W (error m)"
  using k
  by (cases x)
    (simp_all add: discard_obj reset_dev_error unmap_dev_error unmnt_dev_error
      map_dev_error_exact mnt_dev_error_exact do_mount_error_exact do_umount_error_exact
      keeps_error_def)

lemma run_ops_error_exact:
  assumes k: "keeps_error b"
  shows "error (fst (snd (run_ops b env xs m W))) = expected_error b env xs m W (error m)"
proof (induction xs arbitrary: m W)
  case Nil
  show ?case by simp
next
  case (Cons x xs)
  obtain r m1 W1 where s: "run_op b env x m W = (r, m1, W1)" by (metis prod_cases3)
  from run_op_error_exact[OF k, of env x m W] s
  have e1: "error m1 = op_expected b env x m W (error m)" by simp
  show ?case
  proof (cases r)
    case (Inl e)
    with s e1 show ?thesis by simp
  next
    case (Inr u)
    with s e1 Cons.IH[of m1 W1] show ?thesis by simp
  qed
qed

text \<open>
  Once kpartx -a has run, the node alone decides the branch \<^verbatim>\<open>map_dev\<close> takes; in the
  failure branch it returns the \<^verbatim>\<open>mapped\<close> flag as it was on entry.
\<close>

lemma map_dev_after_kpartx:
  assumes "device m = Some d" and "exists env W d"
    and "truthy (partition_sel m)" and "partition_sel m \<noteq> PInt (- 1)"
    and "\<not> exists env W (''/dev/'' @ basename d @ ''p'' @ pystr (partition_sel m))"
    and "\<not> exists env W (''/dev/mapper/'' @ basename d @ ''p'' @ pystr (partition_sel m))"
    and "utils_trycmd env [Some ''kpartx'', Some ''-a'', Some d] True W = ((out, err), W1)"
  shows "map_dev b env m W =
           (if exists env W1 (''/dev/mapper/'' @ basename d @ ''p'' @ pystr (partition_sel m))
            then (Inr True,
                  m\<lparr>mapped_device :=
                      Some (''/dev/mapper/'' @ basename d @ ''p'' @ pystr (partition_sel m)),
                    mapped := True\<rparr>,
                  W1)
            else (Inr (mapped m),
                  m\<lparr>error := ''Failed to map partitions: '' @
                      (if err = [] then ''partition '' @ pystr (partition_sel m) @ '' not found''
                       else err)\<rparr>,
                  W1))"
  using assms by (simp add: map_dev_def)

section \<open>The claims\<close>

subsection \<open>C1\<close>

text \<open>
  C1. Whenever \<^verbatim>\<open>do_mount\<close> returns false, whichever of the three stages failed, the
  stages returned false, \<^verbatim>\<open>do_umount\<close> then ran on the object they left and returned,
  and in the object \<^verbatim>\<open>do_mount\<close> hands back \<^verbatim>\<open>linked\<close>, \<^verbatim>\<open>mapped\<close> and \<^verbatim>\<open>mounted\<close> are
  all false. The subclass is any whose \<^verbatim>\<open>unget_dev\<close> clears \<^verbatim>\<open>linked\<close> as the one of the
  class does.
\<close>

theorem do_mount_failure_torn_down:
  assumes ok: "unget_dev_ok b" and run: "do_mount b env m W = (Inr False, m', W')"
  shows "(case stages b env m W of
            (r, m1, W1) \<Rightarrow> r = Inr False \<and> do_umount b env m1 W1 = (Inr (), m', W')) \<and>
         \<not> linked m' \<and> \<not> mapped m' \<and> \<not> mounted m'"
proof -
  obtain r m1 W1 where st: "stages b env m W = (r, m1, W1)"
    by (metis prod_cases3)
  obtain r2 m2 W2 where um: "do_umount b env m1 W1 = (r2, m2, W2)"
    by (metis prod_cases3)
  from run st um have "r = Inr False \<and> r2 = Inr () \<and> m2 = m' \<and> W2 = W'"
    unfolding do_mount_def by (auto split: sum.splits bool.splits if_splits)
  moreover from this um ok have "idle m'"
    using do_umount_returns_idle[of b env m1 W1 "()" m' W'] by simp
  ultimately show ?thesis using st um by (simp add: idle_def)
qed

text \<open>
  The class's own \<^verbatim>\<open>get_dev\<close> never yields a device, so the run is on the stand-in subclass:
  the device is attached and mapped, the mount command reports "wrong fs type", and the
  object that comes back holds nothing.
\<close>

theorem do_mount_failure_torn_down_witness:
  "unget_dev_ok (spec_backend (Some ''/dev/loop0'') :: string list backend) \<and>
   do_mount (spec_backend (Some ''/dev/loop0'')) (sim_env [] [] ''wrong fs type'' False)
     (fresh PNone) \<lparr>os = [''/dev/loop0''], calls = []\<rparr> =
     (Inr False,
      (fresh PNone)\<lparr>device := Some ''/dev/loop0'', mapped_device := Some ''/dev/loop0'',
         error := ''Failed to mount filesystem: wrong fs type''\<rparr>,
      \<lparr>os = [''/dev/loop0''], calls = [[Some ''mount'', Some ''/dev/loop0'', Some ''/mnt'']]\<rparr>) \<and>
   \<not> linked ((fresh PNone)\<lparr>device := Some ''/dev/loop0'', mapped_device := Some ''/dev/loop0'',
         error := ''Failed to mount filesystem: wrong fs type''\<rparr>)"
proof -
  have run: "do_mount (spec_backend (Some ''/dev/loop0'')) (sim_env [] [] ''wrong fs type'' False)
     (fresh PNone) \<lparr>os = [''/dev/loop0''], calls = []\<rparr> =
     (Inr False,
      (fresh PNone)\<lparr>device := Some ''/dev/loop0'', mapped_device := Some ''/dev/loop0'',
         error := ''Failed to mount filesystem: wrong fs type''\<rparr>,
      \<lparr>os = [''/dev/loop0''], calls = [[Some ''mount'', Some ''/dev/loop0'', Some ''/mnt'']]\<rparr>)"
    by (simp add: do_mount_def stages_def do_umount_def spec_backend_def sim_env_def fresh_def
        map_dev_def mnt_dev_def unmap_dev_def unmnt_dev_def exists_def utils_trycmd_def
        utils_execute_def)
  from do_mount_failure_torn_down[OF spec_backend_unget_ok run] run spec_backend_unget_ok
  show ?thesis by simp
qed

subsection \<open>C2\<close>

text \<open>
  C2. \<^verbatim>\<open>do_umount\<close> called twice in a row gives the result of calling it once: the same
  outcome, the same object (flags, device paths, error text) and the same world, so the
  second call hands no command to the runner. When the first call raises, the second is not
  reached. On an object that holds no stage, as the one the constructor builds without a
  device, \<^verbatim>\<open>do_umount\<close> returns the object and the world as they were.
\<close>

theorem do_umount_twice:
  assumes ok: "unget_dev_ok b"
  shows "seq (do_umount b env m W) (\<lambda>_. do_umount b env) = do_umount b env m W \<and>
         (idle m \<longrightarrow> do_umount b env m W = (Inr (), m, W)) \<and>
         idle (fst (snd (Mount_init env img mdir part None W)))"
proof -
  obtain r m' W' where run: "do_umount b env m W = (r, m', W')"
    by (metis prod_cases3)
  have "seq (do_umount b env m W) (\<lambda>_. do_umount b env) = (r, m', W')"
  proof (cases r)
    case (Inl e)
    with run show ?thesis by simp
  next
    case (Inr u)
    with run ok have "idle m'" by (auto dest: do_umount_returns_idle)
    then have "do_umount b env m' W' = (Inr (), m', W')" by (rule do_umount_idle)
    with run Inr show ?thesis by simp
  qed
  moreover have "idle (fst (snd (Mount_init env img mdir part None W)))"
    by (simp add: Mount_init_def reset_dev_def idle_def)
  moreover have "idle m \<longrightarrow> do_umount b env m W = (Inr (), m, W)"
    by (simp add: do_umount_idle)
  ultimately show ?thesis unfolding run by blast
qed

text \<open>
  An object built from the device hint /dev/loop0: two calls in a row hand one umount
  command to the runner in all. A new object: none.
\<close>

theorem do_umount_twice_witness:
  "unget_dev_ok (Mount_class :: string list backend) \<and>
   Mount_init (sim_env [] [] [] False) ''disk.img'' ''/mnt'' PNone (Some ''/dev/loop0'')
     \<lparr>os = [''/dev/loop0''], calls = []\<rparr> =
     (Inr (),
      (fresh PNone)\<lparr>linked := True, mapped := True, mounted := True,
         device := Some ''/dev/loop0'', mapped_device := Some ''/dev/loop0''\<rparr>,
      \<lparr>os = [''/dev/loop0''], calls = []\<rparr>) \<and>
   seq (do_umount Mount_class (sim_env [] [] [] False)
          ((fresh PNone)\<lparr>linked := True, mapped := True, mounted := True,
             device := Some ''/dev/loop0'', mapped_device := Some ''/dev/loop0''\<rparr>)
          \<lparr>os = [''/dev/loop0''], calls = []\<rparr>)
       (\<lambda>_. do_umount Mount_class (sim_env [] [] [] False)) =
     (Inr (),
      (fresh PNone)\<lparr>device := Some ''/dev/loop0'', mapped_device := Some ''/dev/loop0''\<rparr>,
      \<lparr>os = [''/dev/loop0''], calls = [[Some ''umount'', Some ''/dev/loop0'']]\<rparr>) \<and>
   idle (fresh PNone) \<and>
   do_umount Mount_class (sim_env [] [] [] False) (fresh PNone)
     \<lparr>os = [''/dev/loop0''], calls = []\<rparr> =
     (Inr (), fresh PNone, \<lparr>os = [''/dev/loop0''], calls = []\<rparr>)"
proof -
  have init: "Mount_init (sim_env [] [] [] False) ''disk.img'' ''/mnt'' PNone (Some ''/dev/loop0'')
     \<lparr>os = [''/dev/loop0''], calls = []\<rparr> =
     (Inr (),
      (fresh PNone)\<lparr>linked := True, mapped := True, mounted := True,
         device := Some ''/dev/loop0'', mapped_device := Some ''/dev/loop0''\<rparr>,
      \<lparr>os = [''/dev/loop0''], calls = []\<rparr>)"
    by (simp add: Mount_init_def reset_dev_def isabs_def startswith_def exists_def sim_env_def
        fresh_def)
  have once: "do_umount Mount_class (sim_env [] [] [] False)
          ((fresh PNone)\<lparr>linked := True, mapped := True, mounted := True,
             device := Some ''/dev/loop0'', mapped_device := Some ''/dev/loop0''\<rparr>)
          \<lparr>os = [''/dev/loop0''], calls = []\<rparr> =
     (Inr (),
      (fresh PNone)\<lparr>device := Some ''/dev/loop0'', mapped_device := Some ''/dev/loop0''\<rparr>,
      \<lparr>os = [''/dev/loop0''], calls = [[Some ''umount'', Some ''/dev/loop0'']]\<rparr>)"
    by (simp add: do_umount_def Mount_class_def unget_dev_def sim_env_def fresh_def
        unmap_dev_def unmnt_dev_def utils_execute_def)
  have i: "idle (fresh PNone)" by (simp add: idle_def fresh_def)
  have ok: "unget_dev_ok (Mount_class :: string list backend)"
    by (rule Mount_class_unget_ok)
  from ok init
    do_umount_twice[OF ok, of "sim_env [] [] [] False"
      "(fresh PNone)\<lparr>linked := True, mapped := True, mounted := True,
             device := Some ''/dev/loop0'', mapped_device := Some ''/dev/loop0''\<rparr>"
      "\<lparr>os = [''/dev/loop0''], calls = []\<rparr>"]
    do_umount_twice[OF ok, of "sim_env [] [] [] False"
      "fresh PNone" "\<lparr>os = [''/dev/loop0''], calls = []\<rparr>"]
    once i
  show ?thesis by simp
qed

subsection \<open>C3\<close>

text \<open>
  C3. The claim at an input where the code departs from it. The object is built with the
  device hint /dev/loop0 and partition 1, so the constructor marks it mapped. \<^verbatim>\<open>map_dev\<close>
  runs kpartx -a, which reports nothing and creates no node; the method writes "Failed to
  map partitions: partition 1 not found" and returns \<^verbatim>\<open>self.mapped\<close>, which is still
  true. The same call on an object not marked mapped returns false.
\<close>

theorem map_dev_stale_flag_failing_input:
  "Mount_init (sim_env [] [] [] False) ''disk.img'' ''/mnt'' (PInt 1) (Some ''/dev/loop0'')
     \<lparr>os = [''/dev/loop0''], calls = []\<rparr> =
     (Inr (),
      (fresh (PInt 1))\<lparr>linked := True, mapped := True, mounted := True,
         device := Some ''/dev/loop0'', mapped_device := Some ''/dev/loop0''\<rparr>,
      \<lparr>os = [''/dev/loop0''], calls = []\<rparr>) \<and>
   map_dev Mount_class (sim_env [] [] [] False)
     ((fresh (PInt 1))\<lparr>linked := True, mapped := True, mounted := True,
         device := Some ''/dev/loop0'', mapped_device := Some ''/dev/loop0''\<rparr>)
     \<lparr>os = [''/dev/loop0''], calls = []\<rparr> =
     (Inr True,
      (fresh (PInt 1))\<lparr>linked := True, mapped := True, mounted := True,
         device := Some ''/dev/loop0'', mapped_device := Some ''/dev/loop0'',
         error := ''Failed to map partitions: partition 1 not found''\<rparr>,
      \<lparr>os = [''/dev/loop0''], calls = [[Some ''kpartx'', Some ''-a'', Some ''/dev/loop0'']]\<rparr>) \<and>
   \<not> exists (sim_env [] [] [] False)
       \<lparr>os = [''/dev/loop0''], calls = [[Some ''kpartx'', Some ''-a'', Some ''/dev/loop0'']]\<rparr>
       ''/dev/mapper/loop0p1'' \<and>
   map_dev Mount_class (sim_env [] [] [] False)
     ((fresh (PInt 1))\<lparr>linked := True, device := Some ''/dev/loop0''\<rparr>)
     \<lparr>os = [''/dev/loop0''], calls = []\<rparr> =
     (Inr False,
      (fresh (PInt 1))\<lparr>linked := True, device := Some ''/dev/loop0'',
         error := ''Failed to map partitions: partition 1 not found''\<rparr>,
      \<lparr>os = [''/dev/loop0''], calls = [[Some ''kpartx'', Some ''-a'', Some ''/dev/loop0'']]\<rparr>)"
proof -
  have s1: "string_of_int 1 = ''1''"
    by (simp add: string_of_int_def string_of_nat.simps)
  have b: "basename ''/dev/loop0'' = ''loop0''"
    by (simp add: basename_def)
  show ?thesis
    by (simp add: Mount_init_def reset_dev_def isabs_def startswith_def map_dev_def
        Mount_class_def fresh_def exists_def sim_env_def utils_trycmd_def s1 b)
qed

subsection \<open>C4\<close>

text \<open>
  C4 (as amended). The object the constructor builds has its stage flags in prefix form,
  and so has the object after any sequence of calls made in the order the class asks for:
  \<^verbatim>\<open>map_dev\<close> on a linked object, \<^verbatim>\<open>mnt_dev\<close> on a mapped one, \<^verbatim>\<open>unmap_dev\<close> on one that is
  not mounted, \<^verbatim>\<open>unget_dev\<close> on one that is not mapped; \<^verbatim>\<open>get_dev\<close>, \<^verbatim>\<open>unmnt_dev\<close>,
  \<^verbatim>\<open>reset_dev\<close>, \<^verbatim>\<open>do_mount\<close> and \<^verbatim>\<open>do_umount\<close> at any point. The sequence ends at the
  first exception, and the object then has the property too.
\<close>

theorem prefix_flags_in_order:
  assumes g: "get_dev_ok b" and u: "unget_dev_ok b"
    and init: "Mount_init env img mdir part dev W0 = (Inr (), m0, W1)"
    and ord: "in_order b env xs m0 W1"
  shows "prefix_flags m0 \<and> prefix_flags (fst (snd (run_ops b env xs m0 W1)))"
proof -
  have "prefix_flags
          (fst (snd (reset_dev env
             \<lparr>image_file = img, partition_sel = part, mount_dir = mdir,
              error = [], linked = False, mapped = False, mounted = False, automapped = False,
              device = dev, mapped_device = dev\<rparr> W0)))"
    by (rule reset_dev_prefix) (simp add: prefix_flags_def)
  with init have p0: "prefix_flags m0" by (simp add: Mount_init_def)
  from run_ops_prefix[OF g u p0 ord] p0 show ?thesis by simp
qed

text \<open>
  An object built from a device hint, then unmounted and unmapped: still linked.
\<close>

theorem prefix_flags_in_order_witness:
  "get_dev_ok (Mount_class :: string list backend) \<and>
   unget_dev_ok (Mount_class :: string list backend) \<and>
   Mount_init (sim_env [] [] [] False) ''disk.img'' ''/mnt'' PNone (Some ''/dev/loop0'')
     \<lparr>os = [''/dev/loop0''], calls = []\<rparr> =
     (Inr (),
      (fresh PNone)\<lparr>linked := True, mapped := True, mounted := True,
         device := Some ''/dev/loop0'', mapped_device := Some ''/dev/loop0''\<rparr>,
      \<lparr>os = [''/dev/loop0''], calls = []\<rparr>) \<and>
   in_order Mount_class (sim_env [] [] [] False) [Unmnt_dev, Unmap_dev]
     ((fresh PNone)\<lparr>linked := True, mapped := True, mounted := True,
         device := Some ''/dev/loop0'', mapped_device := Some ''/dev/loop0''\<rparr>)
     \<lparr>os = [''/dev/loop0''], calls = []\<rparr> \<and>
   run_ops Mount_class (sim_env [] [] [] False) [Unmnt_dev, Unmap_dev]
     ((fresh PNone)\<lparr>linked := True, mapped := True, mounted := True,
         device := Some ''/dev/loop0'', mapped_device := Some ''/dev/loop0''\<rparr>)
     \<lparr>os = [''/dev/loop0''], calls = []\<rparr> =
     (Inr (),
      (fresh PNone)\<lparr>linked := True, device := Some ''/dev/loop0'',
         mapped_device := Some ''/dev/loop0''\<rparr>,
      \<lparr>os = [''/dev/loop0''], calls = [[Some ''umount'', Some ''/dev/loop0'']]\<rparr>) \<and>
   prefix_flags ((fresh PNone)\<lparr>linked := True, mapped := True, mounted := True,
         device := Some ''/dev/loop0'', mapped_device := Some ''/dev/loop0''\<rparr>) \<and>
   prefix_flags ((fresh PNone)\<lparr>linked := True, device := Some ''/dev/loop0'',
         mapped_device := Some ''/dev/loop0''\<rparr>)"
proof -
  have g: "get_dev_ok (Mount_class :: string list backend)"
    by (rule Mount_class_get_ok)
  have u: "unget_dev_ok (Mount_class :: string list backend)"
    by (rule Mount_class_unget_ok)
  have init: "Mount_init (sim_env [] [] [] False) ''disk.img'' ''/mnt'' PNone
     (Some ''/dev/loop0'') \<lparr>os = [''/dev/loop0''], calls = []\<rparr> =
     (Inr (),
      (fresh PNone)\<lparr>linked := True, mapped := True, mounted := True,
         device := Some ''/dev/loop0'', mapped_device := Some ''/dev/loop0''\<rparr>,
      \<lparr>os = [''/dev/loop0''], calls = []\<rparr>)"
    by (simp add: Mount_init_def reset_dev_def isabs_def startswith_def exists_def sim_env_def
        fresh_def)
  have ord: "in_order Mount_class (sim_env [] [] [] False) [Unmnt_dev, Unmap_dev]
     ((fresh PNone)\<lparr>linked := True, mapped := True, mounted := True,
         device := Some ''/dev/loop0'', mapped_device := Some ''/dev/loop0''\<rparr>)
     \<lparr>os = [''/dev/loop0''], calls = []\<rparr>"
    by (simp add: sim_env_def fresh_def unmap_dev_def unmnt_dev_def utils_execute_def)
  have run: "run_ops Mount_class (sim_env [] [] [] False) [Unmnt_dev, Unmap_dev]
     ((fresh PNone)\<lparr>linked := True, mapped := True, mounted := True,
         device := Some ''/dev/loop0'', mapped_device := Some ''/dev/loop0''\<rparr>)
     \<lparr>os = [''/dev/loop0''], calls = []\<rparr> =
     (Inr (),
      (fresh PNone)\<lparr>linked := True, device := Some ''/dev/loop0'',
         mapped_device := Some ''/dev/loop0''\<rparr>,
      \<lparr>os = [''/dev/loop0''], calls = [[Some ''umount'', Some ''/dev/loop0'']]\<rparr>)"
    by (simp add: sim_env_def fresh_def unmap_dev_def unmnt_dev_def utils_execute_def)
  from prefix_flags_in_order[OF g u init ord] g u init ord run show ?thesis by simp
qed

text \<open>
  C4 as stated covers every sequence of calls. \<^verbatim>\<open>unget_dev\<close> on an object built with a
  device hint leaves it mapped and mounted and not linked; \<^verbatim>\<open>mnt_dev\<close> on a new object,
  with a mount command that reports nothing, leaves it mounted and not mapped.
\<close>

theorem prefix_flags_out_of_order_counterexample:
  "Mount_init (sim_env [] [] [] False) ''disk.img'' ''/mnt'' PNone (Some ''/dev/loop0'')
     \<lparr>os = [''/dev/loop0''], calls = []\<rparr> =
     (Inr (),
      (fresh PNone)\<lparr>linked := True, mapped := True, mounted := True,
         device := Some ''/dev/loop0'', mapped_device := Some ''/dev/loop0''\<rparr>,
      \<lparr>os = [''/dev/loop0''], calls = []\<rparr>) \<and>
   run_ops Mount_class (sim_env [] [] [] False) [Unget_dev]
     ((fresh PNone)\<lparr>linked := True, mapped := True, mounted := True,
         device := Some ''/dev/loop0'', mapped_device := Some ''/dev/loop0''\<rparr>)
     \<lparr>os = [''/dev/loop0''], calls = []\<rparr> =
     (Inr (),
      (fresh PNone)\<lparr>mapped := True, mounted := True,
         device := Some ''/dev/loop0'', mapped_device := Some ''/dev/loop0''\<rparr>,
      \<lparr>os = [''/dev/loop0''], calls = []\<rparr>) \<and>
   \<not> prefix_flags ((fresh PNone)\<lparr>mapped := True, mounted := True,
         device := Some ''/dev/loop0'', mapped_device := Some ''/dev/loop0''\<rparr>) \<and>
   Mount_init (sim_env [] [] [] False) ''disk.img'' ''/mnt'' PNone None
     \<lparr>os = [], calls = []\<rparr> = (Inr (), fresh PNone, \<lparr>os = [], calls = []\<rparr>) \<and>
   run_ops Mount_class (sim_env [] [] [] False) [Mnt_dev] (fresh PNone)
     \<lparr>os = [], calls = []\<rparr> =
     (Inr (), (fresh PNone)\<lparr>mounted := True\<rparr>,
      \<lparr>os = [], calls = [[Some ''mount'', None, Some ''/mnt'']]\<rparr>) \<and>
   \<not> prefix_flags ((fresh PNone)\<lparr>mounted := True\<rparr>)"
  by (simp add: Mount_init_def reset_dev_def isabs_def startswith_def exists_def sim_env_def
      fresh_def Mount_class_def unget_dev_def discard_def mnt_dev_def utils_trycmd_def
      prefix_flags_def)

subsection \<open>C5\<close>

text \<open>
  C5 (as amended). The constructor with a non-empty device hint. A hint that is not
  absolute, does not exist or does not start with /dev/mapper/ gives an object marked
  linked, mapped and mounted, with device and partition as given. An absolute, existing
  hint under /dev/mapper/ whose basename holds a p gives an object marked the same way,
  with device /dev/<base> and partition the text N, where <base>p<N> is the basename cut
  at its last p; the mapped device stays the hint. When the basename holds no p the
  unpacking in \<^verbatim>\<open>reset_dev\<close> raises ValueError and no object is built.
\<close>

theorem Mount_init_device_hint:
  assumes "d \<noteq> []"
  shows "(\<not> (isabs d \<and> exists env W d \<and> startswith ''/dev/mapper/'' d) \<longrightarrow>
            Mount_init env img mdir part (Some d) W =
              (Inr (),
               \<lparr>image_file = img, partition_sel = part, mount_dir = mdir, error = [],
                linked = True, mapped = True, mounted = True, automapped = False,
                device = Some d, mapped_device = Some d\<rparr>,
               W)) \<and>
         (isabs d \<and> exists env W d \<and> startswith ''/dev/mapper/'' d \<and>
          CHR ''p'' \<in> set (basename d) \<longrightarrow>
            (\<exists>base n. basename d = base @ CHR ''p'' # n \<and> CHR ''p'' \<notin> set n \<and>
               Mount_init env img mdir part (Some d) W =
                 (Inr (),
                  \<lparr>image_file = img, partition_sel = PStr n, mount_dir = mdir, error = [],
                   linked = True, mapped = True, mounted = True, automapped = False,
                   device = Some (''/dev/'' @ base), mapped_device = Some d\<rparr>,
                  W))) \<and>
         (isabs d \<and> exists env W d \<and> startswith ''/dev/mapper/'' d \<and>
          CHR ''p'' \<notin> set (basename d) \<longrightarrow>
            fst (Mount_init env img mdir part (Some d) W) = Inl ValueError)"
proof (intro conjI impI)
  assume "\<not> (isabs d \<and> exists env W d \<and> startswith ''/dev/mapper/'' d)"
  with assms show "Mount_init env img mdir part (Some d) W =
              (Inr (),
               \<lparr>image_file = img, partition_sel = part, mount_dir = mdir, error = [],
                linked = True, mapped = True, mounted = True, automapped = False,
                device = Some d, mapped_device = Some d\<rparr>,
               W)"
    by (auto simp: Mount_init_def reset_dev_def Let_def)
next
  assume h: "isabs d \<and> exists env W d \<and> startswith ''/dev/mapper/'' d \<and>
          CHR ''p'' \<in> set (basename d)"
  then obtain base n where r: "rsplit_p (basename d) = Some (base, n)"
    by (auto simp: rsplit_p_def)
  from rsplit_p_Some[OF r] have b: "basename d = base @ CHR ''p'' # n" and p: "CHR ''p'' \<notin> set n"
    by simp_all
  from b basename_no_slash[of d] have "CHR ''/'' \<notin> set base" by auto
  then have j: "path_join ''/dev'' base = ''/dev/'' @ base" by (rule path_join_dev)
  have "Mount_init env img mdir part (Some d) W =
                 (Inr (),
                  \<lparr>image_file = img, partition_sel = PStr n, mount_dir = mdir, error = [],
                   linked = True, mapped = True, mounted = True, automapped = False,
                   device = Some (''/dev/'' @ base), mapped_device = Some d\<rparr>,
                  W)"
    using assms h r j by (simp add: Mount_init_def reset_dev_def Let_def)
  with b p show "\<exists>base n. basename d = base @ CHR ''p'' # n \<and> CHR ''p'' \<notin> set n \<and>
               Mount_init env img mdir part (Some d) W =
                 (Inr (),
                  \<lparr>image_file = img, partition_sel = PStr n, mount_dir = mdir, error = [],
                   linked = True, mapped = True, mounted = True, automapped = False,
                   device = Some (''/dev/'' @ base), mapped_device = Some d\<rparr>,
                  W)"
    by blast
next
  assume h: "isabs d \<and> exists env W d \<and> startswith ''/dev/mapper/'' d \<and>
          CHR ''p'' \<notin> set (basename d)"
  then have "rsplit_p (basename d) = None" by (simp add: rsplit_p_def)
  with assms h show "fst (Mount_init env img mdir part (Some d) W) = Inl ValueError"
    by (simp add: Mount_init_def reset_dev_def Let_def)
qed

text \<open>
  The hints /dev/mapper/loop0p1 (device /dev/loop0, partition the text 1), /dev/loop0
  (left as given) and /dev/mapper/vg0 (ValueError).
\<close>

theorem Mount_init_device_hint_witness:
  "''/dev/mapper/loop0p1'' \<noteq> [] \<and>
   isabs ''/dev/mapper/loop0p1'' \<and>
   exists (sim_env [] [] [] False) \<lparr>os = [''/dev/mapper/loop0p1''], calls = []\<rparr>
     ''/dev/mapper/loop0p1'' \<and>
   startswith ''/dev/mapper/'' ''/dev/mapper/loop0p1'' \<and>
   basename ''/dev/mapper/loop0p1'' = ''loop0'' @ CHR ''p'' # ''1'' \<and>
   Mount_init (sim_env [] [] [] False) ''disk.img'' ''/mnt'' PNone (Some ''/dev/mapper/loop0p1'')
     \<lparr>os = [''/dev/mapper/loop0p1''], calls = []\<rparr> =
     (Inr (),
      \<lparr>image_file = ''disk.img'', partition_sel = PStr ''1'', mount_dir = ''/mnt'', error = [],
       linked = True, mapped = True, mounted = True, automapped = False,
       device = Some ''/dev/loop0'', mapped_device = Some ''/dev/mapper/loop0p1''\<rparr>,
      \<lparr>os = [''/dev/mapper/loop0p1''], calls = []\<rparr>) \<and>
   Mount_init (sim_env [] [] [] False) ''disk.img'' ''/mnt'' (PInt 2) (Some ''/dev/loop0'')
     \<lparr>os = [''/dev/loop0''], calls = []\<rparr> =
     (Inr (),
      \<lparr>image_file = ''disk.img'', partition_sel = PInt 2, mount_dir = ''/mnt'', error = [],
       linked = True, mapped = True, mounted = True, automapped = False,
       device = Some ''/dev/loop0'', mapped_device = Some ''/dev/loop0''\<rparr>,
      \<lparr>os = [''/dev/loop0''], calls = []\<rparr>) \<and>
   fst (Mount_init (sim_env [] [] [] False) ''disk.img'' ''/mnt'' PNone (Some ''/dev/mapper/vg0'')
     \<lparr>os = [''/dev/mapper/vg0''], calls = []\<rparr>) = Inl ValueError"
proof -
  have b: "basename ''/dev/mapper/loop0p1'' = ''loop0p1''"
    and b2: "basename ''/dev/mapper/vg0'' = ''vg0''"
    by (simp_all add: basename_def)
  have c: "isabs ''/dev/mapper/loop0p1'' \<and>
     exists (sim_env [] [] [] False) \<lparr>os = [''/dev/mapper/loop0p1''], calls = []\<rparr>
       ''/dev/mapper/loop0p1'' \<and>
     startswith ''/dev/mapper/'' ''/dev/mapper/loop0p1''"
    by (simp add: isabs_def exists_def sim_env_def startswith_def)
  have run: "Mount_init (sim_env [] [] [] False) ''disk.img'' ''/mnt'' PNone
     (Some ''/dev/mapper/loop0p1'') \<lparr>os = [''/dev/mapper/loop0p1''], calls = []\<rparr> =
     (Inr (),
      \<lparr>image_file = ''disk.img'', partition_sel = PStr ''1'', mount_dir = ''/mnt'', error = [],
       linked = True, mapped = True, mounted = True, automapped = False,
       device = Some ''/dev/loop0'', mapped_device = Some ''/dev/mapper/loop0p1''\<rparr>,
      \<lparr>os = [''/dev/mapper/loop0p1''], calls = []\<rparr>)"
    by (simp add: Mount_init_def reset_dev_def isabs_def startswith_def b
        rsplit_p_def path_join_def exists_def sim_env_def)
  show ?thesis
    using Mount_init_device_hint[of "''/dev/mapper/loop0p1''" "sim_env [] [] [] False"
        "\<lparr>os = [''/dev/mapper/loop0p1''], calls = []\<rparr>" "''disk.img''" "''/mnt''" PNone]
      Mount_init_device_hint[of "''/dev/loop0''" "sim_env [] [] [] False"
        "\<lparr>os = [''/dev/loop0''], calls = []\<rparr>" "''disk.img''" "''/mnt''" "PInt 2"]
      Mount_init_device_hint[of "''/dev/mapper/vg0''" "sim_env [] [] [] False"
        "\<lparr>os = [''/dev/mapper/vg0''], calls = []\<rparr>" "''disk.img''" "''/mnt''" PNone]
      c run
    by (simp add: b b2 isabs_def exists_def sim_env_def startswith_def)
qed

text \<open>
  C5 as stated ties reattachment to an absolute, existing hint. The hint loop0 is relative
  and does not exist, and the object is marked linked and mapped all the same.
\<close>

theorem Mount_init_relative_hint_counterexample:
  "linked (fst (snd (Mount_init (sim_env [] [] [] False) ''disk.img'' ''/mnt'' PNone
     (Some ''loop0'') \<lparr>os = [], calls = []\<rparr>))) \<and>
   mapped (fst (snd (Mount_init (sim_env [] [] [] False) ''disk.img'' ''/mnt'' PNone
     (Some ''loop0'') \<lparr>os = [], calls = []\<rparr>))) \<and>
   \<not> isabs ''loop0'' \<and>
   \<not> exists (sim_env [] [] [] False) \<lparr>os = [], calls = []\<rparr> ''loop0''"
  by (simp add: Mount_init_def reset_dev_def isabs_def exists_def sim_env_def)

subsection \<open>C6\<close>

text \<open>
  C6. \<^verbatim>\<open>map_dev\<close> with a specific partition (a value that is true and not -1), on a
  device that exists and whose node /dev/<basename>p<partition> exists: it returns true,
  the mapped device is that node, \<^verbatim>\<open>mapped\<close> and \<^verbatim>\<open>automapped\<close> are set, and the world is as
  it was, so no command was handed to the runner.
\<close>

theorem map_dev_automapped:
  assumes "device m = Some d" and "exists env W d"
    and "truthy (partition_sel m)" and "partition_sel m \<noteq> PInt (- 1)"
    and "exists env W (''/dev/'' @ basename d @ ''p'' @ pystr (partition_sel m))"
  shows "map_dev b env m W =
           (Inr True,
            m\<lparr>mapped_device := Some (''/dev/'' @ basename d @ ''p'' @ pystr (partition_sel m)),
              mapped := True, automapped := True\<rparr>,
            W)"
  using assms by (simp add: map_dev_def)

text \<open>
  Partition 1 of /dev/loop0 with /dev/loop0p1 present.
\<close>

theorem map_dev_automapped_witness:
  "map_dev Mount_class (sim_env [] [] [] False)
     ((fresh (PInt 1))\<lparr>linked := True, device := Some ''/dev/loop0''\<rparr>)
     \<lparr>os = [''/dev/loop0'', ''/dev/loop0p1''], calls = []\<rparr> =
     (Inr True,
      (fresh (PInt 1))\<lparr>linked := True, device := Some ''/dev/loop0'',
         mapped_device := Some ''/dev/loop0p1'', mapped := True, automapped := True\<rparr>,
      \<lparr>os = [''/dev/loop0'', ''/dev/loop0p1''], calls = []\<rparr>)"
proof -
  have s1: "string_of_int 1 = ''1''"
    by (simp add: string_of_int_def string_of_nat.simps)
  have b: "basename ''/dev/loop0'' = ''loop0''"
    by (simp add: basename_def)
  show ?thesis
    using map_dev_automapped[of "(fresh (PInt 1))\<lparr>linked := True, device := Some ''/dev/loop0''\<rparr>"
        "''/dev/loop0''" "sim_env [] [] [] False"
        "\<lparr>os = [''/dev/loop0'', ''/dev/loop0p1''], calls = []\<rparr>" Mount_class]
    by (simp add: fresh_def exists_def sim_env_def s1 b)
qed

subsection \<open>C7\<close>

text \<open>
  C7 (as amended). \<^verbatim>\<open>do_umount\<close> on an object that is mapped and not automapped, when it
  returns: after the unmount step (one umount command when the object was mounted) the
  runner is handed kpartx -d on the raw device when the partition is a true value, and
  nothing when it is not; then comes \<^verbatim>\<open>unget_dev\<close> when the object is linked. In the object
  that comes back \<^verbatim>\<open>mapped\<close> and \<^verbatim>\<open>automapped\<close> are false.
\<close>

theorem do_umount_unmaps:
  assumes ok: "unget_dev_ok b" and mp: "mapped m" and na: "\<not> automapped m"
    and run: "do_umount b env m W = (Inr (), m', W')"
  shows "\<not> mapped m' \<and> \<not> automapped m' \<and>
         (\<exists>W2. calls W2 =
                  calls W @ (if mounted m then [[Some ''umount'', mapped_device m]] else []) @
                  (if truthy (partition_sel m) then [[Some ''kpartx'', Some ''-d'', device m]]
                   else []) \<and>
               (if linked m
                then unget_dev_m b (m\<lparr>mounted := False, mapped := False, automapped := False\<rparr>) W2
                else (Inr (), m\<lparr>mounted := False, mapped := False, automapped := False\<rparr>, W2)) =
               (Inr (), m', W'))"
proof -
  obtain r1 m1 W1 where
    s1: "(if mounted m then unmnt_dev env m W else (Inr (), m, W)) = (r1, m1, W1)"
    by (metis prod_cases3)
  obtain r2 m2 W2 where
    s2: "(if mapped m1 then unmap_dev env m1 W1 else (Inr (), m1, W1)) = (r2, m2, W2)"
    by (metis prod_cases3)
  from run s1 have r1: "r1 = Inr ()"
    unfolding do_umount_def by (cases r1) auto
  from run s1 s2 r1 have r2: "r2 = Inr ()"
    unfolding do_umount_def by (cases r2) auto
  from run s1 s2 r1 r2 have s3:
    "(if linked m2 then unget_dev_m b m2 W2 else (Inr (), m2, W2)) = (Inr (), m', W')"
    unfolding do_umount_def by simp
  from s1 r1 have a1: "m1 = m\<lparr>mounted := False\<rparr> \<and>
      calls W1 = calls W @ (if mounted m then [[Some ''umount'', mapped_device m]] else [])"
    using unmnt_dev_returns[of env m W "()" m1 W1] by (auto split: if_splits)
  with mp have mp1: "mapped m1" by simp
  with s2 r2 have u2: "unmap_dev env m1 W1 = (Inr (), m2, W2)" by simp
  from unmap_dev_returns[OF u2 mp1] a1 na
  have a2: "m2 = m\<lparr>mounted := False, mapped := False, automapped := False\<rparr> \<and>
      calls W2 = calls W @ (if mounted m then [[Some ''umount'', mapped_device m]] else []) @
        (if truthy (partition_sel m) then [[Some ''kpartx'', Some ''-d'', device m]] else [])"
    by simp
  have fl: "\<not> mapped m' \<and> \<not> automapped m'"
  proof (cases "linked m2")
    case True
    with s3 have "unget_dev_m b m2 W2 = (Inr (), m', W')" by simp
    from unget_dev_okD(1,3)[OF ok this] a2 show ?thesis by simp
  next
    case False
    with s3 a2 show ?thesis by auto
  qed
  from a2 have m2: "m2 = m\<lparr>mounted := False, mapped := False, automapped := False\<rparr>"
    and c2: "calls W2 =
        calls W @ (if mounted m then [[Some ''umount'', mapped_device m]] else []) @
        (if truthy (partition_sel m) then [[Some ''kpartx'', Some ''-d'', device m]] else [])"
    by simp_all
  from m2 have l: "linked m2 = linked m" by simp
  from s3 have "(if linked m then unget_dev_m b m2 W2 else (Inr (), m2, W2)) = (Inr (), m', W')"
    unfolding l .
  then have "(if linked m
       then unget_dev_m b (m\<lparr>mounted := False, mapped := False, automapped := False\<rparr>) W2
       else (Inr (), m\<lparr>mounted := False, mapped := False, automapped := False\<rparr>, W2)) =
      (Inr (), m', W')"
    unfolding m2 .
  with c2 have "calls W2 =
        calls W @ (if mounted m then [[Some ''umount'', mapped_device m]] else []) @
        (if truthy (partition_sel m) then [[Some ''kpartx'', Some ''-d'', device m]] else []) \<and>
      (if linked m
       then unget_dev_m b (m\<lparr>mounted := False, mapped := False, automapped := False\<rparr>) W2
       else (Inr (), m\<lparr>mounted := False, mapped := False, automapped := False\<rparr>, W2)) =
      (Inr (), m', W')"
    by (rule conjI)
  with fl show ?thesis by blast
qed

text \<open>
  An object built from the hint /dev/mapper/loop0p1: umount of the node, then kpartx -d on
  /dev/loop0.
\<close>

theorem do_umount_unmaps_witness:
  "unget_dev_ok (Mount_class :: string list backend) \<and>
   Mount_init (sim_env [] [] [] False) ''disk.img'' ''/mnt'' PNone (Some ''/dev/mapper/loop0p1'')
     \<lparr>os = [''/dev/loop0'', ''/dev/mapper/loop0p1''], calls = []\<rparr> =
     (Inr (),
      (fresh (PStr ''1''))\<lparr>linked := True, mapped := True, mounted := True,
        device := Some ''/dev/loop0'', mapped_device := Some ''/dev/mapper/loop0p1''\<rparr>,
      \<lparr>os = [''/dev/loop0'', ''/dev/mapper/loop0p1''], calls = []\<rparr>) \<and>
   do_umount Mount_class (sim_env [] [] [] False)
     ((fresh (PStr ''1''))\<lparr>linked := True, mapped := True, mounted := True,
        device := Some ''/dev/loop0'', mapped_device := Some ''/dev/mapper/loop0p1''\<rparr>)
     \<lparr>os = [''/dev/loop0'', ''/dev/mapper/loop0p1''], calls = []\<rparr> =
     (Inr (),
      (fresh (PStr ''1''))\<lparr>device := Some ''/dev/loop0'',
        mapped_device := Some ''/dev/mapper/loop0p1''\<rparr>,
      \<lparr>os = [''/dev/loop0'', ''/dev/mapper/loop0p1''],
       calls = [[Some ''umount'', Some ''/dev/mapper/loop0p1''],
                [Some ''kpartx'', Some ''-d'', Some ''/dev/loop0'']]\<rparr>) \<and>
   \<not> mapped ((fresh (PStr ''1''))\<lparr>device := Some ''/dev/loop0'',
        mapped_device := Some ''/dev/mapper/loop0p1''\<rparr>) \<and>
   \<not> automapped ((fresh (PStr ''1''))\<lparr>device := Some ''/dev/loop0'',
        mapped_device := Some ''/dev/mapper/loop0p1''\<rparr>)"
proof -
  have init: "Mount_init (sim_env [] [] [] False) ''disk.img'' ''/mnt'' PNone
     (Some ''/dev/mapper/loop0p1'')
     \<lparr>os = [''/dev/loop0'', ''/dev/mapper/loop0p1''], calls = []\<rparr> =
     (Inr (),
      (fresh (PStr ''1''))\<lparr>linked := True, mapped := True, mounted := True,
        device := Some ''/dev/loop0'', mapped_device := Some ''/dev/mapper/loop0p1''\<rparr>,
      \<lparr>os = [''/dev/loop0'', ''/dev/mapper/loop0p1''], calls = []\<rparr>)"
    by (simp add: Mount_init_def reset_dev_def isabs_def startswith_def basename_def
        rsplit_p_def path_join_def fresh_def exists_def sim_env_def)
  have run: "do_umount Mount_class (sim_env [] [] [] False)
     ((fresh (PStr ''1''))\<lparr>linked := True, mapped := True, mounted := True,
        device := Some ''/dev/loop0'', mapped_device := Some ''/dev/mapper/loop0p1''\<rparr>)
     \<lparr>os = [''/dev/loop0'', ''/dev/mapper/loop0p1''], calls = []\<rparr> =
     (Inr (),
      (fresh (PStr ''1''))\<lparr>device := Some ''/dev/loop0'',
        mapped_device := Some ''/dev/mapper/loop0p1''\<rparr>,
      \<lparr>os = [''/dev/loop0'', ''/dev/mapper/loop0p1''],
       calls = [[Some ''umount'', Some ''/dev/mapper/loop0p1''],
                [Some ''kpartx'', Some ''-d'', Some ''/dev/loop0'']]\<rparr>)"
    by (simp add: do_umount_def Mount_class_def unget_dev_def sim_env_def fresh_def
        unmap_dev_def unmnt_dev_def utils_execute_def)
  have ok: "unget_dev_ok (Mount_class :: string list backend)"
    by (rule Mount_class_unget_ok)
  have mp: "mapped ((fresh (PStr ''1''))\<lparr>linked := True, mapped := True, mounted := True,
        device := Some ''/dev/loop0'', mapped_device := Some ''/dev/mapper/loop0p1''\<rparr>)"
    by simp
  have na: "\<not> automapped ((fresh (PStr ''1''))\<lparr>linked := True, mapped := True,
        mounted := True, device := Some ''/dev/loop0'',
        mapped_device := Some ''/dev/mapper/loop0p1''\<rparr>)"
    by (simp add: fresh_def)
  from do_umount_unmaps[OF ok mp na run] ok init run show ?thesis by simp
qed

text \<open>
  C7 as stated has the tool run whether or not a partition was given. An object built from
  the hint /dev/loop0 with no partition is mapped and not automapped, and \<^verbatim>\<open>do_umount\<close>
  hands the runner the umount command and nothing else.
\<close>

theorem do_umount_whole_device_counterexample:
  "Mount_init (sim_env [] [] [] False) ''disk.img'' ''/mnt'' PNone (Some ''/dev/loop0'')
     \<lparr>os = [''/dev/loop0''], calls = []\<rparr> =
     (Inr (),
      (fresh PNone)\<lparr>linked := True, mapped := True, mounted := True,
         device := Some ''/dev/loop0'', mapped_device := Some ''/dev/loop0''\<rparr>,
      \<lparr>os = [''/dev/loop0''], calls = []\<rparr>) \<and>
   mapped ((fresh PNone)\<lparr>linked := True, mapped := True, mounted := True,
         device := Some ''/dev/loop0'', mapped_device := Some ''/dev/loop0''\<rparr>) \<and>
   \<not> automapped ((fresh PNone)\<lparr>linked := True, mapped := True, mounted := True,
         device := Some ''/dev/loop0'', mapped_device := Some ''/dev/loop0''\<rparr>) \<and>
   do_umount Mount_class (sim_env [] [] [] False)
     ((fresh PNone)\<lparr>linked := True, mapped := True, mounted := True,
         device := Some ''/dev/loop0'', mapped_device := Some ''/dev/loop0''\<rparr>)
     \<lparr>os = [''/dev/loop0''], calls = []\<rparr> =
     (Inr (),
      (fresh PNone)\<lparr>device := Some ''/dev/loop0'', mapped_device := Some ''/dev/loop0''\<rparr>,
      \<lparr>os = [''/dev/loop0''], calls = [[Some ''umount'', Some ''/dev/loop0'']]\<rparr>)"
  by (simp add: Mount_init_def reset_dev_def isabs_def startswith_def exists_def
      do_umount_def Mount_class_def unget_dev_def sim_env_def fresh_def
      unmap_dev_def unmnt_dev_def utils_execute_def)

subsection \<open>C8\<close>

text \<open>
  C8 (as amended). The error text is empty once the constructor is done. \<^verbatim>\<open>map_dev\<close> and
  \<^verbatim>\<open>mnt_dev\<close> do not clear it when they start: each leaves it as it was unless the stage
  fails, and then overwrites it with the description of that failure; a \<^verbatim>\<open>map_dev\<close> that
  returns false has failed, and \<^verbatim>\<open>mnt_dev\<close> returns true exactly when it has not. The other
  methods of the class leave the text alone. So after any sequence of calls, for a subclass
  whose \<^verbatim>\<open>get_dev\<close> and \<^verbatim>\<open>unget_dev\<close> leave the text alone, the text is the description
  of the most recent failure, or what the sequence started with.
\<close>

theorem error_set_only_on_failure:
  "error (fst (snd (Mount_init env img mdir part dev W))) = [] \<and>
   error (fst (snd (map_dev b env m W))) =
     (case fst (map_dev b env m W) of
        Inl e \<Rightarrow> error m
      | Inr r \<Rightarrow> or_keep (map_failure b env m W) (error m)) \<and>
   (fst (map_dev b env m W) = Inr False \<longrightarrow> map_failure b env m W \<noteq> None) \<and>
   error (fst (snd (mnt_dev env m W))) = or_keep (mnt_failure env m W) (error m) \<and>
   fst (mnt_dev env m W) = Inr (mnt_failure env m W = None) \<and>
   error (fst (snd (unmnt_dev env m W))) = error m \<and>
   error (fst (snd (unmap_dev env m W))) = error m \<and>
   error (fst (snd (get_dev m W))) = error m \<and>
   error (fst (snd (unget_dev m W))) = error m \<and>
   (keeps_error b \<longrightarrow>
      error (fst (snd (run_ops b env xs m W))) = expected_error b env xs m W (error m))"
proof -
  have "error (fst (snd (Mount_init env img mdir part dev W))) = []"
    by (simp add: Mount_init_def reset_dev_error)
  moreover have "error (fst (snd (map_dev b env m W))) =
     (case fst (map_dev b env m W) of
        Inl e \<Rightarrow> error m
      | Inr r \<Rightarrow> or_keep (map_failure b env m W) (error m))"
    using map_dev_error_exact[of b env m W] by (simp add: map_expected_def)
  moreover have "fst (map_dev b env m W) = Inr False \<longrightarrow> map_failure b env m W \<noteq> None"
    by (simp add: map_dev_False_failure)
  moreover have "error (fst (snd (get_dev m W))) = error m"
    and "error (fst (snd (unget_dev m W))) = error m"
    by (simp_all add: get_dev_def unget_dev_def)
  moreover have "keeps_error b \<longrightarrow>
      error (fst (snd (run_ops b env xs m W))) = expected_error b env xs m W (error m)"
    by (simp add: run_ops_error_exact)
  ultimately show ?thesis
    using mnt_dev_error_exact[of env m W] mnt_dev_result_failure[of env m W]
      unmnt_dev_error[of env m W] unmap_dev_error[of env m W]
    by blast
qed

text \<open>
  The mapping fails (no node), then the mount fails ("wrong fs type"): the text is that of
  the mount, the later of the two.
\<close>

theorem error_set_only_on_failure_witness:
  "keeps_error (Mount_class :: string list backend) \<and>
   run_ops Mount_class (sim_env [] [] ''wrong fs type'' False) [Map_dev, Mnt_dev, Unmnt_dev]
     ((fresh (PInt 1))\<lparr>linked := True, device := Some ''/dev/loop0''\<rparr>)
     \<lparr>os = [''/dev/loop0''], calls = []\<rparr> =
     (Inr (),
      (fresh (PInt 1))\<lparr>linked := True, device := Some ''/dev/loop0'',
         error := ''Failed to mount filesystem: wrong fs type''\<rparr>,
      \<lparr>os = [''/dev/loop0''],
       calls = [[Some ''kpartx'', Some ''-a'', Some ''/dev/loop0''],
                [Some ''mount'', None, Some ''/mnt'']]\<rparr>) \<and>
   map_failure Mount_class (sim_env [] [] ''wrong fs type'' False)
     ((fresh (PInt 1))\<lparr>linked := True, device := Some ''/dev/loop0''\<rparr>)
     \<lparr>os = [''/dev/loop0''], calls = []\<rparr> =
     Some ''Failed to map partitions: partition 1 not found'' \<and>
   expected_error Mount_class (sim_env [] [] ''wrong fs type'' False)
     [Map_dev, Mnt_dev, Unmnt_dev]
     ((fresh (PInt 1))\<lparr>linked := True, device := Some ''/dev/loop0''\<rparr>)
     \<lparr>os = [''/dev/loop0''], calls = []\<rparr> [] =
     ''Failed to mount filesystem: wrong fs type''"
proof -
  have k: "keeps_error (Mount_class :: string list backend)"
    by (rule Mount_class_keeps_error)
  have s1: "string_of_int 1 = ''1''"
    by (simp add: string_of_int_def string_of_nat.simps)
  have b: "basename ''/dev/loop0'' = ''loop0''"
    by (simp add: basename_def)
  have run: "run_ops Mount_class (sim_env [] [] ''wrong fs type'' False)
     [Map_dev, Mnt_dev, Unmnt_dev]
     ((fresh (PInt 1))\<lparr>linked := True, device := Some ''/dev/loop0''\<rparr>)
     \<lparr>os = [''/dev/loop0''], calls = []\<rparr> =
     (Inr (),
      (fresh (PInt 1))\<lparr>linked := True, device := Some ''/dev/loop0'',
         error := ''Failed to mount filesystem: wrong fs type''\<rparr>,
      \<lparr>os = [''/dev/loop0''],
       calls = [[Some ''kpartx'', Some ''-a'', Some ''/dev/loop0''],
                [Some ''mount'', None, Some ''/mnt'']]\<rparr>)"
    by (simp add: discard_def Mount_class_def sim_env_def fresh_def map_dev_def mnt_dev_def
        unmnt_dev_def exists_def utils_trycmd_def s1 b)
  have mf: "map_failure Mount_class (sim_env [] [] ''wrong fs type'' False)
     ((fresh (PInt 1))\<lparr>linked := True, device := Some ''/dev/loop0''\<rparr>)
     \<lparr>os = [''/dev/loop0''], calls = []\<rparr> =
     Some ''Failed to map partitions: partition 1 not found''"
    by (simp add: map_failure_def Mount_class_def sim_env_def fresh_def exists_def
        utils_trycmd_def s1 b)
  have e: "error ((fresh (PInt 1))\<lparr>linked := True, device := Some ''/dev/loop0''\<rparr>) = []"
    by (simp add: fresh_def)
  from error_set_only_on_failure[of "sim_env [] [] ''wrong fs type'' False" "''disk.img''"
      "''/mnt''" PNone None "\<lparr>os = [''/dev/loop0''], calls = []\<rparr>"
      Mount_class
      "(fresh (PInt 1))\<lparr>linked := True, device := Some ''/dev/loop0''\<rparr>"
      "[Map_dev, Mnt_dev, Unmnt_dev]"]
    k run mf e
  show ?thesis by simp
qed

text \<open>
  C8 as stated has the text cleared when a stage starts. On an object built from a device
  hint the mount command reports "wrong fs type"; \<^verbatim>\<open>map_dev\<close> then runs and returns true,
  and the text of the mount failure is still there.
\<close>

theorem error_not_cleared_counterexample:
  "Mount_init (sim_env [] [] ''wrong fs type'' False) ''disk.img'' ''/mnt'' PNone
     (Some ''/dev/loop0'') \<lparr>os = [''/dev/loop0''], calls = []\<rparr> =
     (Inr (),
      (fresh PNone)\<lparr>linked := True, mapped := True, mounted := True,
         device := Some ''/dev/loop0'', mapped_device := Some ''/dev/loop0''\<rparr>,
      \<lparr>os = [''/dev/loop0''], calls = []\<rparr>) \<and>
   mnt_dev (sim_env [] [] ''wrong fs type'' False)
     ((fresh PNone)\<lparr>linked := True, mapped := True, mounted := True,
         device := Some ''/dev/loop0'', mapped_device := Some ''/dev/loop0''\<rparr>)
     \<lparr>os = [''/dev/loop0''], calls = []\<rparr> =
     (Inr False,
      (fresh PNone)\<lparr>linked := True, mapped := True, mounted := True,
         device := Some ''/dev/loop0'', mapped_device := Some ''/dev/loop0'',
         error := ''Failed to mount filesystem: wrong fs type''\<rparr>,
      \<lparr>os = [''/dev/loop0''], calls = [[Some ''mount'', Some ''/dev/loop0'', Some ''/mnt'']]\<rparr>) \<and>
   map_dev Mount_class (sim_env [] [] ''wrong fs type'' False)
     ((fresh PNone)\<lparr>linked := True, mapped := True, mounted := True,
         device := Some ''/dev/loop0'', mapped_device := Some ''/dev/loop0'',
         error := ''Failed to mount filesystem: wrong fs type''\<rparr>)
     \<lparr>os = [''/dev/loop0''], calls = [[Some ''mount'', Some ''/dev/loop0'', Some ''/mnt'']]\<rparr> =
     (Inr True,
      (fresh PNone)\<lparr>linked := True, mapped := True, mounted := True,
         device := Some ''/dev/loop0'', mapped_device := Some ''/dev/loop0'',
         error := ''Failed to mount filesystem: wrong fs type''\<rparr>,
      \<lparr>os = [''/dev/loop0''], calls = [[Some ''mount'', Some ''/dev/loop0'', Some ''/mnt'']]\<rparr>) \<and>
   error ((fresh PNone)\<lparr>linked := True, mapped := True, mounted := True,
         device := Some ''/dev/loop0'', mapped_device := Some ''/dev/loop0'',
         error := ''Failed to mount filesystem: wrong fs type''\<rparr>) \<noteq> []"
  by (simp add: Mount_init_def reset_dev_def isabs_def startswith_def Mount_class_def
      sim_env_def fresh_def map_dev_def mnt_dev_def exists_def utils_trycmd_def)

subsection \<open>C9\<close>

text \<open>
  C9 (as amended). When a stage of \<^verbatim>\<open>do_mount\<close> raises, \<^verbatim>\<open>do_umount\<close> runs on the object
  as the stage left it before any exception leaves \<^verbatim>\<open>do_mount\<close>. When the teardown
  returns, no stage is held any more and the exception of the stage goes on. When the
  teardown raises, its exception goes on in place of the stage's, and what it had not yet
  undone stays held: everything when umount failed, the mapping and the device when
  kpartx -d failed, at most the device when \<^verbatim>\<open>unget_dev\<close> raised.
\<close>

theorem do_mount_raise_torn_down:
  assumes ok: "unget_dev_ok b" and st: "stages b env m W = (Inl e, m1, W1)"
    and um: "do_umount b env m1 W1 = (r2, m2, W2)"
  shows "(r2 = Inr () \<longrightarrow> do_mount b env m W = (Inl e, m2, W2) \<and> idle m2) \<and>
         (\<forall>e2. r2 = Inl e2 \<longrightarrow>
            do_mount b env m W = (Inl e2, m2, W2) \<and>
            ((mounted m1 \<and> m2 = m1) \<or>
             (mapped m1 \<and> m2 = m1\<lparr>mounted := False\<rparr>) \<or>
             (linked m1 \<and> \<not> mounted m2 \<and> \<not> mapped m2)))"
proof (intro conjI impI allI)
  assume r: "r2 = Inr ()"
  with st um show "do_mount b env m W = (Inl e, m2, W2)" by (simp add: do_mount_def)
  from r um ok show "idle m2" by (auto dest: do_umount_returns_idle)
next
  fix e2 assume r: "r2 = Inl e2"
  with st um show "do_mount b env m W = (Inl e2, m2, W2)" by (simp add: do_mount_def)
  from r um do_umount_raises[OF ok, of env m1 W1 e2 m2 W2]
  show "(mounted m1 \<and> m2 = m1) \<or> (mapped m1 \<and> m2 = m1\<lparr>mounted := False\<rparr>) \<or>
        (linked m1 \<and> \<not> mounted m2 \<and> \<not> mapped m2)"
    by auto
qed

text \<open>
  The class as it is: \<^verbatim>\<open>get_dev\<close> sets the device to \<^verbatim>\<open>None\<close>, \<^verbatim>\<open>map_dev\<close> raises
  TypeError on it, and the flag \<^verbatim>\<open>get_dev\<close> had set is cleared before the exception leaves.
\<close>

theorem do_mount_raise_torn_down_witness:
  "unget_dev_ok (Mount_class :: string list backend) \<and>
   stages Mount_class (sim_env [] [] [] False) (fresh PNone) \<lparr>os = [], calls = []\<rparr> =
     (Inl TypeError, (fresh PNone)\<lparr>linked := True\<rparr>, \<lparr>os = [], calls = []\<rparr>) \<and>
   do_umount Mount_class (sim_env [] [] [] False) ((fresh PNone)\<lparr>linked := True\<rparr>)
     \<lparr>os = [], calls = []\<rparr> = (Inr (), fresh PNone, \<lparr>os = [], calls = []\<rparr>) \<and>
   do_mount Mount_class (sim_env [] [] [] False) (fresh PNone) \<lparr>os = [], calls = []\<rparr> =
     (Inl TypeError, fresh PNone, \<lparr>os = [], calls = []\<rparr>) \<and>
   idle (fresh PNone)"
proof -
  have st: "stages Mount_class (sim_env [] [] [] False) (fresh PNone) \<lparr>os = [], calls = []\<rparr> =
     (Inl TypeError, (fresh PNone)\<lparr>linked := True\<rparr>, \<lparr>os = [], calls = []\<rparr>)"
    by (simp add: stages_def Mount_class_def get_dev_def map_dev_def fresh_def)
  have um: "do_umount Mount_class (sim_env [] [] [] False) ((fresh PNone)\<lparr>linked := True\<rparr>)
     \<lparr>os = [], calls = []\<rparr> = (Inr (), fresh PNone, \<lparr>os = [], calls = []\<rparr>)"
    by (simp add: do_umount_def Mount_class_def unget_dev_def fresh_def)
  have ok: "unget_dev_ok (Mount_class :: string list backend)"
    by (rule Mount_class_unget_ok)
  from do_mount_raise_torn_down[OF ok st um] um st ok
  show ?thesis by simp
qed

text \<open>
  C9 as stated has the resources released on every exceptional exit. On an object built
  with a device hint \<^verbatim>\<open>map_dev\<close> raises TypeError, the umount command of the teardown
  fails, and \<^verbatim>\<open>do_mount\<close> raises ProcessExecutionError with the object still linked, mapped
  and mounted.
\<close>

theorem do_mount_teardown_raises_counterexample:
  "Mount_init (sim_env [] [] [] True) ''disk.img'' ''/mnt'' PNone (Some ''/dev/loop0'')
     \<lparr>os = [''/dev/loop0''], calls = []\<rparr> =
     (Inr (),
      (fresh PNone)\<lparr>linked := True, mapped := True, mounted := True,
         device := Some ''/dev/loop0'', mapped_device := Some ''/dev/loop0''\<rparr>,
      \<lparr>os = [''/dev/loop0''], calls = []\<rparr>) \<and>
   stages Mount_class (sim_env [] [] [] True)
     ((fresh PNone)\<lparr>linked := True, mapped := True, mounted := True,
         device := Some ''/dev/loop0'', mapped_device := Some ''/dev/loop0''\<rparr>)
     \<lparr>os = [''/dev/loop0''], calls = []\<rparr> =
     (Inl TypeError,
      (fresh PNone)\<lparr>linked := True, mapped := True, mounted := True,
         mapped_device := Some ''/dev/loop0''\<rparr>,
      \<lparr>os = [''/dev/loop0''], calls = []\<rparr>) \<and>
   do_mount Mount_class (sim_env [] [] [] True)
     ((fresh PNone)\<lparr>linked := True, mapped := True, mounted := True,
         device := Some ''/dev/loop0'', mapped_device := Some ''/dev/loop0''\<rparr>)
     \<lparr>os = [''/dev/loop0''], calls = []\<rparr> =
     (Inl ProcessExecutionError,
      (fresh PNone)\<lparr>linked := True, mapped := True, mounted := True,
         mapped_device := Some ''/dev/loop0''\<rparr>,
      \<lparr>os = [''/dev/loop0''], calls = [[Some ''umount'', Some ''/dev/loop0'']]\<rparr>) \<and>
   linked ((fresh PNone)\<lparr>linked := True, mapped := True, mounted := True,
         mapped_device := Some ''/dev/loop0''\<rparr>) \<and>
   mapped ((fresh PNone)\<lparr>linked := True, mapped := True, mounted := True,
         mapped_device := Some ''/dev/loop0''\<rparr>) \<and>
   mounted ((fresh PNone)\<lparr>linked := True, mapped := True, mounted := True,
         mapped_device := Some ''/dev/loop0''\<rparr>)"
  by (simp add: Mount_init_def reset_dev_def isabs_def startswith_def exists_def
      do_mount_def stages_def do_umount_def Mount_class_def get_dev_def map_dev_def
      sim_env_def fresh_def unmnt_dev_def utils_execute_def)

subsection \<open>C10\<close>

text \<open>
  C10. On a device path \<^verbatim>\<open>d\<close>, \<^verbatim>\<open>map_dev\<close> raises AssertionError exactly when \<^verbatim>\<open>d\<close> does
  not exist, or a specific partition is asked for, its node /dev/<basename>p<partition> is
  absent and /dev/mapper/<basename>p<partition> is already there. It then leaves the
  object and the world as they were: no error text, no result, no command.
\<close>

theorem map_dev_asserts:
  assumes "device m = Some d"
  shows "(fst (map_dev b env m W) = Inl AssertionError) =
           (\<not> exists env W d \<or>
            (truthy (partition_sel m) \<and> partition_sel m \<noteq> PInt (- 1) \<and>
             \<not> exists env W (''/dev/'' @ basename d @ ''p'' @ pystr (partition_sel m)) \<and>
             exists env W (''/dev/mapper/'' @ basename d @ ''p'' @ pystr (partition_sel m)))) \<and>
         (fst (map_dev b env m W) = Inl AssertionError \<longrightarrow>
            map_dev b env m W = (Inl AssertionError, m, W))"
  using assms
  by (auto simp: map_dev_def Let_def split: prod.splits if_splits)

text \<open>
  The device is missing; and the device-mapper node is already there.
\<close>

theorem map_dev_asserts_witness:
  "map_dev Mount_class (sim_env [] [] [] False)
     ((fresh (PInt 1))\<lparr>linked := True, device := Some ''/dev/loop0''\<rparr>)
     \<lparr>os = [], calls = []\<rparr> =
     (Inl AssertionError, (fresh (PInt 1))\<lparr>linked := True, device := Some ''/dev/loop0''\<rparr>,
      \<lparr>os = [], calls = []\<rparr>) \<and>
   map_dev Mount_class (sim_env [] [] [] False)
     ((fresh (PInt 1))\<lparr>linked := True, device := Some ''/dev/loop0''\<rparr>)
     \<lparr>os = [''/dev/loop0'', ''/dev/mapper/loop0p1''], calls = []\<rparr> =
     (Inl AssertionError, (fresh (PInt 1))\<lparr>linked := True, device := Some ''/dev/loop0''\<rparr>,
      \<lparr>os = [''/dev/loop0'', ''/dev/mapper/loop0p1''], calls = []\<rparr>)"
proof -
  have s1: "string_of_int 1 = ''1''"
    by (simp add: string_of_int_def string_of_nat.simps)
  have b: "basename ''/dev/loop0'' = ''loop0''"
    by (simp add: basename_def)
  have d: "device ((fresh (PInt 1))\<lparr>linked := True, device := Some ''/dev/loop0''\<rparr>) =
      Some ''/dev/loop0''"
    by simp
  show ?thesis
    using map_dev_asserts[OF d, of Mount_class "sim_env [] [] [] False"
        "\<lparr>os = [], calls = []\<rparr>"]
      map_dev_asserts[OF d, of Mount_class "sim_env [] [] [] False"
        "\<lparr>os = [''/dev/loop0'', ''/dev/mapper/loop0p1''], calls = []\<rparr>"]
    by (simp add: fresh_def exists_def sim_env_def s1 b)
qed

end
